theory Spec2Isabelle
  imports Main "HOL-Library.Word"
begin

section \<open>Common types\<close>

text \<open>
  An \<open>Oid\<close> is PostgreSQL's 32-bit unsigned object identifier; \<open>InvalidOid\<close> is 0.
  Node group identifiers are C \<open>int32\<close> values; they are kept as 32-bit words too, so
  that the comparison of an \<open>int\<close> group with an \<open>Oid\<close>-typed group in
  \<open>AllowConnectionsOnlyOnNodeGroup\<close> (a comparison of bit patterns after the usual
  arithmetic conversion) is plain equality.
\<close>

type_synonym Oid = "32 word"
type_synonym int32 = "32 word"

definition InvalidOid :: Oid where
  "InvalidOid = 0"

definition OidIsValid :: "Oid \<Rightarrow> bool" where
  "OidIsValid objectId = (objectId \<noteq> InvalidOid)"

text \<open>
  The parse trees the two files distinguish: \<open>IsA(parseTree, CreatedbStmt)\<close>,
  \<open>IsA(parseTree, DropdbStmt)\<close> (with its \<open>missing_ok\<close> flag, the IF EXISTS of the
  statement), and every other node, of which only the tag is used.
\<close>

datatype Node =
    CreatedbStmt string
  | DropdbStmt string bool
  | OtherStmt nat

text \<open>Every \<open>ereport(ERROR, ...)\<close> of the two files and of the PostgreSQL routines they call.\<close>

datatype error =
    UndefinedDatabase string
  | DuplicateDatabase string
  | UnsupportedCommandType nat
  | SyntaxError string
  | InsufficientPrivilege string
  | AlreadyAssigned
  | NotOwner string
  | NullDatabaseName

section \<open>PostgreSQL's configuration variables with their save stacks\<close>

text \<open>
  \<open>citus_internal_database_command\<close> changes two boolean settings through
  \<open>NewGUCNestLevel\<close>, \<open>set_config_option\<close> and \<open>AtEOXact_GUC\<close>. These are PostgreSQL
  routines (utils/misc/guc.c); they are modelled here with the rules of that file.
  Every variable has its current value and a stack of saved values; a stack entry
  records the nest level at which it was pushed, how the value was set at that level,
  the prior value, and the value masked by a SET LOCAL after a SET.
\<close>

datatype GucStackState = GUC_SAVE | GUC_SET | GUC_LOCAL | GUC_SET_LOCAL

datatype GucAction = GUC_ACTION_SET | GUC_ACTION_LOCAL | GUC_ACTION_SAVE

record GucStack =
  nest_level :: nat
  state :: GucStackState
  prior :: bool
  masked :: bool

record config_bool =
  variable :: bool
  stack :: "GucStack list"

text \<open>
  \<open>push_old_value\<close>: nothing outside a nest level; an entry of the current nest level
  is adjusted, otherwise a new entry holding the current value is pushed.
\<close>

definition adjust_state :: "GucAction \<Rightarrow> bool \<Rightarrow> GucStack \<Rightarrow> GucStack" where
  "adjust_state action current entry =
     (case action of
        GUC_ACTION_SET \<Rightarrow> entry\<lparr>state := GUC_SET\<rparr>
      | GUC_ACTION_LOCAL \<Rightarrow>
          (if state entry = GUC_SET then entry\<lparr>state := GUC_SET_LOCAL, masked := current\<rparr>
           else entry)
      | GUC_ACTION_SAVE \<Rightarrow> entry)"

definition new_entry :: "nat \<Rightarrow> GucAction \<Rightarrow> bool \<Rightarrow> GucStack" where
  "new_entry level action current =
     \<lparr>nest_level = level,
      state = (case action of GUC_ACTION_SET \<Rightarrow> GUC_SET
               | GUC_ACTION_LOCAL \<Rightarrow> GUC_LOCAL
               | GUC_ACTION_SAVE \<Rightarrow> GUC_SAVE),
      prior = current, masked = False\<rparr>"

definition push_old_value :: "nat \<Rightarrow> GucAction \<Rightarrow> config_bool \<Rightarrow> config_bool" where
  "push_old_value level action gconf =
     (if level = 0 then gconf
      else case stack gconf of
             [] \<Rightarrow> gconf\<lparr>stack := [new_entry level action (variable gconf)]\<rparr>
           | entry # rest \<Rightarrow>
               if level \<le> nest_level entry
               then gconf\<lparr>stack := adjust_state action (variable gconf) entry # rest\<rparr>
               else gconf\<lparr>stack := new_entry level action (variable gconf) # entry # rest\<rparr>)"

text \<open>
  The merge of a committing entry into the entry below it (the last branch of the loop
  of \<open>AtEOXact_GUC\<close>): a SET makes the level below a SET; a LOCAL migrates down onto a
  SET and is forgotten otherwise; a SET LOCAL copies its masked value down.
\<close>

definition merge_into_prev :: "GucStack \<Rightarrow> GucStack \<Rightarrow> GucStack" where
  "merge_into_prev entry prev =
     (case state entry of
        GUC_SAVE \<Rightarrow> prev
      | GUC_SET \<Rightarrow> prev\<lparr>state := GUC_SET\<rparr>
      | GUC_LOCAL \<Rightarrow>
          (if state prev = GUC_SET then prev\<lparr>masked := prior entry, state := GUC_SET_LOCAL\<rparr>
           else prev)
      | GUC_SET_LOCAL \<Rightarrow> prev\<lparr>masked := masked entry, state := GUC_SET_LOCAL\<rparr>)"

text \<open>
  The loop of \<open>AtEOXact_GUC\<close> for one variable: entries of nest level \<open>nestLevel\<close> or
  deeper are processed from the entry. An abort and a SAVE entry restore the prior
  value. At commit of nest level 1 (the transaction) a LOCAL entry restores the prior
  value, a SET keeps the current one and a SET LOCAL restores the masked one. At commit
  of a deeper level the entry is not restored: its level is decremented when the entry
  below is not of the next level, else it is merged into that entry. (The C code
  asserts \<open>nestLevel > 0\<close>.)
\<close>

function pop_stack :: "bool \<Rightarrow> nat \<Rightarrow> config_bool \<Rightarrow> config_bool" where
  "pop_stack isCommit nestLevel gconf =
     (case stack gconf of
        [] \<Rightarrow> gconf
      | entry # rest \<Rightarrow>
          if nestLevel = 0 \<or> nest_level entry < nestLevel then gconf
          else if \<not> isCommit \<or> state entry = GUC_SAVE
          then pop_stack isCommit nestLevel (gconf\<lparr>variable := prior entry, stack := rest\<rparr>)
          else if nest_level entry = 1
          then (if state entry = GUC_SET_LOCAL
                then pop_stack isCommit nestLevel (gconf\<lparr>variable := masked entry, stack := rest\<rparr>)
                else if state entry = GUC_SET
                then pop_stack isCommit nestLevel (gconf\<lparr>stack := rest\<rparr>)
                else pop_stack isCommit nestLevel (gconf\<lparr>variable := prior entry, stack := rest\<rparr>))
          else (case rest of
                  [] \<Rightarrow> pop_stack isCommit nestLevel
                          (gconf\<lparr>stack := [entry\<lparr>nest_level := nest_level entry - 1\<rparr>]\<rparr>)
                | prev # below \<Rightarrow>
                    if nest_level prev < nest_level entry - 1
                    then pop_stack isCommit nestLevel
                           (gconf\<lparr>stack := entry\<lparr>nest_level := nest_level entry - 1\<rparr> # prev # below\<rparr>)
                    else pop_stack isCommit nestLevel
                           (gconf\<lparr>stack := merge_into_prev entry prev # below\<rparr>)))"
  by pat_completeness auto
termination
  by (relation "measure (\<lambda>(isCommit, nestLevel, gconf).
        sum_list (map nest_level (stack gconf)) + length (stack gconf))")
     (auto simp: merge_into_prev_def split: GucStackState.splits)


section \<open>The state of a backend\<close>

text \<open>
  A worker node as the node list of the cluster reports it (the fields of \<open>WorkerNode\<close>
  the code reads), and a row of the registry table \<open>database_shard\<close> with its three
  columns \<open>Anum_database_shard_database_id\<close>, \<open>Anum_database_shard_node_group_id\<close>
  and \<open>Anum_database_shard_is_available\<close>, from which \<open>TupleToDatabaseShard\<close> fills
  the fields \<open>databaseOid\<close>, \<open>nodeGroupId\<close> and \<open>isAvailable\<close> of the struct.
\<close>

record WorkerNode =
  workerName :: string
  workerPort :: nat
  groupId :: int32

record DatabaseShard =
  database_id :: Oid
  node_group_id :: int32
  is_available :: bool

text \<open>
  A connection opened by \<open>GetNodeUserDatabaseConnection\<close>, and the commands that leave
  the backend: a utility statement run locally through SPI, a command sent to one
  worker, a command sent to every worker with metadata, and the traffic on a
  connection. The dispatcher itself is outside these files; a command handed to it is
  recorded in the order of the calls.
\<close>

record MultiConnection =
  connectionFlags :: nat
  hostname :: string
  port :: nat
  user :: "string option"
  database :: string

datatype event =
    SPIQuery string
  | WorkerCommand string nat string
  | MetadataWorkersCommand string
  | ConnectionOpened MultiConnection
  | CriticalRemoteCommand MultiConnection string
  | ConnectionClosed MultiConnection

text \<open>
  The part of the backend the two files read and write: the catalog \<open>pg_database\<close>
  (database name and Oid, in catalog order), the database the session is connected to
  (\<open>MyDatabaseId\<close>, which no function of the two files reads), the Oid counter, the
  nest level and the two
  settings \<open>citus.enable_ddl_propagation\<close> and
  \<open>citus.enable_create_database_propagation\<close>, the settings
  \<open>citus.enable_database_sharding\<close> and \<open>citus.enable_metadata_sync\<close>, the local
  group id, the node list that \<open>TargetWorkerSetNodeList(ALL_SHARD_NODES, RowShareLock)\<close>
  returns, the databases the current user owns (\<open>pg_database_ownercheck\<close> with
  \<open>GetUserId()\<close>), the registry table, the flag \<open>ReconfigurePgBouncersOnCommit\<close>, the
  address of the control database, and the commands issued so far.
\<close>

record backend =
  pg_database :: "(string \<times> Oid) list"
  MyDatabaseId :: Oid
  nextOid :: Oid
  GUCNestLevel :: nat
  EnableDDLPropagation :: config_bool
  EnableCreateDatabasePropagation :: config_bool
  EnableDatabaseSharding :: bool
  EnableMetadataSync :: bool
  LocalGroupId :: int32
  all_shard_nodes :: "WorkerNode list"
  owned_databases :: "Oid list"
  database_shard :: "DatabaseShard list"
  ReconfigurePgBouncersOnCommit :: bool
  LocalHostName :: string
  PostPortNumber :: nat
  CitusMainDatabase :: string
  issued :: "event list"

section \<open>PostgreSQL's catalog routines\<close>

text \<open>
  \<open>get_database_oid(dbname, missing_ok)\<close> looks the name up in \<open>pg_database\<close>; the
  result is \<open>InvalidOid\<close> when no row has the name, and then the routine raises
  unless \<open>missing_ok\<close>. \<open>get_database_name\<close> is the reverse lookup and returns NULL
  (here \<open>None\<close>) for an unknown Oid.
\<close>

definition get_database_oid :: "backend \<Rightarrow> string \<Rightarrow> bool \<Rightarrow> error + Oid" where
  "get_database_oid s dbname missing_ok =
     (let oid = (case map_of (pg_database s) dbname of None \<Rightarrow> InvalidOid | Some found \<Rightarrow> found)
      in if \<not> OidIsValid oid \<and> \<not> missing_ok then Inl (UndefinedDatabase dbname) else Inr oid)"

definition get_database_name :: "backend \<Rightarrow> Oid \<Rightarrow> string option" where
  "get_database_name s dbOid = map_of (map (\<lambda>(dbname, oid). (oid, dbname)) (pg_database s)) dbOid"

definition pg_database_ownercheck :: "backend \<Rightarrow> Oid \<Rightarrow> bool" where
  "pg_database_ownercheck s dbOid = (dbOid \<in> set (owned_databases s))"

text \<open>
  \<open>createdb\<close> raises for a name that is taken and otherwise adds a row under a new
  Oid, which is never \<open>InvalidOid\<close>. \<open>DropDatabase\<close> removes the row of the name; for
  a name that is absent it raises, or does nothing when the statement says IF EXISTS.
  The other causes for which the two PostgreSQL routines can fail (privileges,
  templates, open connections) are not part of this model.
\<close>

definition GetNewOid :: "backend \<Rightarrow> Oid \<times> backend" where
  "GetNewOid s =
     (let oid = (if OidIsValid (nextOid s) then nextOid s else 1)
      in (oid, s\<lparr>nextOid := oid + 1\<rparr>))"

definition createdb :: "string \<Rightarrow> backend \<Rightarrow> error + backend" where
  "createdb dbname s =
     (if map_of (pg_database s) dbname \<noteq> None then Inl (DuplicateDatabase dbname)
      else let (oid, s') = GetNewOid s
           in Inr (s'\<lparr>pg_database := pg_database s' @ [(dbname, oid)]\<rparr>))"

definition DropDatabase :: "string \<Rightarrow> bool \<Rightarrow> backend \<Rightarrow> error + backend" where
  "DropDatabase dbname missing_ok s =
     (case map_of (pg_database s) dbname of
        None \<Rightarrow> if missing_ok then Inr s else Inl (UndefinedDatabase dbname)
      | Some oid \<Rightarrow> Inr (s\<lparr>pg_database := filter (\<lambda>(n, _). n \<noteq> dbname) (pg_database s)\<rparr>))"

section \<open>The settings of the backend\<close>

datatype guc_name = enable_ddl_propagation | enable_create_database_propagation

definition NewGUCNestLevel :: "backend \<Rightarrow> nat \<times> backend" where
  "NewGUCNestLevel s = (Suc (GUCNestLevel s), s\<lparr>GUCNestLevel := Suc (GUCNestLevel s)\<rparr>)"

text \<open>
  \<open>set_config_option\<close> with \<open>changeVal\<close> true and source \<open>PGC_S_SESSION\<close>: the old
  value is pushed for the action, then the variable is assigned. Both settings can be
  set by any user, so the call does not fail.
\<close>

definition set_config_option :: "guc_name \<Rightarrow> bool \<Rightarrow> GucAction \<Rightarrow> backend \<Rightarrow> backend" where
  "set_config_option name newval action s =
     (case name of
        enable_ddl_propagation \<Rightarrow>
          s\<lparr>EnableDDLPropagation :=
              (push_old_value (GUCNestLevel s) action (EnableDDLPropagation s))\<lparr>variable := newval\<rparr>\<rparr>
      | enable_create_database_propagation \<Rightarrow>
          s\<lparr>EnableCreateDatabasePropagation :=
              (push_old_value (GUCNestLevel s) action (EnableCreateDatabasePropagation s))
                \<lparr>variable := newval\<rparr>\<rparr>)"

definition AtEOXact_GUC :: "bool \<Rightarrow> nat \<Rightarrow> backend \<Rightarrow> backend" where
  "AtEOXact_GUC isCommit nestLevel s =
     s\<lparr>EnableDDLPropagation := pop_stack isCommit nestLevel (EnableDDLPropagation s),
       EnableCreateDatabasePropagation :=
         pop_stack isCommit nestLevel (EnableCreateDatabasePropagation s),
       GUCNestLevel := nestLevel - 1\<rparr>"

section \<open>commands/database.c: the replay entry point\<close>

text \<open>
  A call either returns or raises; the backend that comes with \<open>Raised\<close> is the
  backend at the \<open>ereport\<close>, before the abort of the transaction.
\<close>

datatype outcome = Returned | Raised error

text \<open>
  The chain of lines 318 to 346: a create statement is applied when
  \<open>get_database_oid\<close> with \<open>missingOk = true\<close> finds no database, a drop statement
  when \<open>get_database_oid\<close> with \<open>missingOk = false\<close> returns a valid Oid, and any other
  statement raises with its node tag in the message.
\<close>

definition database_command_branches :: "Node \<Rightarrow> backend \<Rightarrow> error + backend" where
  "database_command_branches parseTree s =
     (case parseTree of
        CreatedbStmt dbname \<Rightarrow>
          (case get_database_oid s dbname True of
             Inl e \<Rightarrow> Inl e
           | Inr databaseOid \<Rightarrow>
               if \<not> OidIsValid databaseOid then createdb dbname s else Inr s)
      | DropdbStmt dbname missing_ok \<Rightarrow>
          (case get_database_oid s dbname False of
             Inl e \<Rightarrow> Inl e
           | Inr databaseOid \<Rightarrow>
               if OidIsValid databaseOid then DropDatabase dbname missing_ok s else Inr s)
      | OtherStmt tag \<Rightarrow> Inl (UnsupportedCommandType tag))"

text \<open>
  \<open>citus_internal_database_command\<close>. The parser \<open>ParseTreeNode\<close> is a parameter; it
  raises for text that is no statement. The nest level is opened first, the text is
  parsed, both settings are turned off with \<open>GUC_ACTION_LOCAL\<close>, the statement is
  applied, and \<open>AtEOXact_GUC(true, saveNestLevel)\<close> runs on the path that returns.
\<close>

definition citus_internal_database_command ::
  "(string \<Rightarrow> error + Node) \<Rightarrow> string \<Rightarrow> backend \<Rightarrow> outcome \<times> backend" where
  "citus_internal_database_command ParseTreeNode command s0 =
     (let (saveNestLevel, s1) = NewGUCNestLevel s0
      in case ParseTreeNode command of
           Inl e \<Rightarrow> (Raised e, s1)
         | Inr parseTree \<Rightarrow>
             let s2 = set_config_option enable_ddl_propagation False GUC_ACTION_LOCAL s1;
                 s3 = set_config_option enable_create_database_propagation False
                        GUC_ACTION_LOCAL s2
             in case database_command_branches parseTree s3 of
                  Inl e \<Rightarrow> (Raised e, s3)
                | Inr s4 \<Rightarrow> (Returned, AtEOXact_GUC True saveNestLevel s4))"

section \<open>database/database_sharding.c: collaborators\<close>

text \<open>
  The deparser and the quoting routines are outside the file; they are parameters of
  the model.
\<close>

record deparser =
  DeparseCreatedbStmt :: "Node \<Rightarrow> string"
  DeparseDropdbStmt :: "Node \<Rightarrow> string"
  quote_identifier :: "string \<Rightarrow> string"
  quote_literal_cstr :: "string \<Rightarrow> string"

text \<open>The \<open>%d\<close> of \<open>appendStringInfo\<close> for an \<open>int\<close>.\<close>

definition digit :: "nat \<Rightarrow> char" where
  "digit n = ''0123456789'' ! n"

function string_of_nat :: "nat \<Rightarrow> string" where
  "string_of_nat n =
     (if n < 10 then [digit n]
      else string_of_nat (n div 10) @ [digit (n mod 10)])"
  by pat_completeness auto
termination
  by (relation "measure id") auto

definition format_d :: "int32 \<Rightarrow> string" where
  "format_d i =
     (if sint i < 0 then CHR ''-'' # string_of_nat (nat (- sint i))
      else string_of_nat (nat (sint i)))"

datatype ProcessUtilityContext =
    PROCESS_UTILITY_TOPLEVEL
  | PROCESS_UTILITY_QUERY
  | PROCESS_UTILITY_QUERY_NONATOMIC
  | PROCESS_UTILITY_SUBCOMMAND

definition FORCE_NEW_CONNECTION :: nat where
  "FORCE_NEW_CONNECTION = 1"

definition GetLocalGroupId :: "backend \<Rightarrow> int32" where
  "GetLocalGroupId s = LocalGroupId s"

definition TargetWorkerSetNodeList :: "backend \<Rightarrow> WorkerNode list" where
  "TargetWorkerSetNodeList s = all_shard_nodes s"

definition ExecuteQueryViaSPI :: "string \<Rightarrow> backend \<Rightarrow> backend" where
  "ExecuteQueryViaSPI query s = s\<lparr>issued := issued s @ [SPIQuery query]\<rparr>"

definition SendCommandToWorker :: "string \<Rightarrow> nat \<Rightarrow> string \<Rightarrow> backend \<Rightarrow> backend" where
  "SendCommandToWorker nodeName nodePort command s =
     s\<lparr>issued := issued s @ [WorkerCommand nodeName nodePort command]\<rparr>"

definition SendCommandToWorkersWithMetadata :: "string \<Rightarrow> backend \<Rightarrow> backend" where
  "SendCommandToWorkersWithMetadata command s =
     s\<lparr>issued := issued s @ [MetadataWorkersCommand command]\<rparr>"

definition GetNodeUserDatabaseConnection ::
  "nat \<Rightarrow> string \<Rightarrow> nat \<Rightarrow> string option \<Rightarrow> string \<Rightarrow> backend \<Rightarrow> MultiConnection \<times> backend" where
  "GetNodeUserDatabaseConnection flags host nodePort userName dbname s =
     (let connection = \<lparr>connectionFlags = flags, hostname = host, port = nodePort,
                         user = userName, database = dbname\<rparr>
      in (connection, s\<lparr>issued := issued s @ [ConnectionOpened connection]\<rparr>))"

definition ExecuteCriticalRemoteCommand :: "MultiConnection \<Rightarrow> string \<Rightarrow> backend \<Rightarrow> backend" where
  "ExecuteCriticalRemoteCommand connection command s =
     s\<lparr>issued := issued s @ [CriticalRemoteCommand connection command]\<rparr>"

definition CloseConnection :: "MultiConnection \<Rightarrow> backend \<Rightarrow> backend" where
  "CloseConnection connection s = s\<lparr>issued := issued s @ [ConnectionClosed connection]\<rparr>"

section \<open>database/database_sharding.c: the delegation to the control database\<close>

text \<open>The statement that tags the connection; \<open>CHR 0x27\<close> is the single quote.\<close>

definition set_application_name :: string where
  "set_application_name =
     ''SET application_name TO '' @ [CHR 0x27] @ ''citus_database_shard'' @ [CHR 0x27]"

definition ExecuteCommandInControlDatabase :: "string \<Rightarrow> backend \<Rightarrow> backend" where
  "ExecuteCommandInControlDatabase command s =
     (let connectionFlag = FORCE_NEW_CONNECTION;
          (connection, s1) =
             GetNodeUserDatabaseConnection connectionFlag (LocalHostName s) (PostPortNumber s)
               None (CitusMainDatabase s) s;
          s2 = ExecuteCriticalRemoteCommand connection set_application_name s1;
          s3 = ExecuteCriticalRemoteCommand connection command s2
      in CloseConnection connection s3)"

text \<open>
  \<open>PreProcessUtilityInDatabaseShard\<close>; the result is the value of
  \<open>*runPreviousUtilityHook\<close> after the call together with the backend.
\<close>

definition PreProcessUtilityInDatabaseShard ::
  "deparser \<Rightarrow> Node \<Rightarrow> ProcessUtilityContext \<Rightarrow> bool \<Rightarrow> backend \<Rightarrow> bool \<times> backend" where
  "PreProcessUtilityInDatabaseShard d parseTree context runPreviousUtilityHook s =
     (if \<not> EnableDatabaseSharding s \<or> context \<noteq> PROCESS_UTILITY_TOPLEVEL
      then (runPreviousUtilityHook, s)
      else if variable (EnableCreateDatabasePropagation s)
      then (case parseTree of
              CreatedbStmt dbname \<Rightarrow>
                (False, ExecuteCommandInControlDatabase (DeparseCreatedbStmt d parseTree) s)
            | DropdbStmt dbname missing_ok \<Rightarrow>
                (False, ExecuteCommandInControlDatabase (DeparseDropdbStmt d parseTree) s)
            | OtherStmt tag \<Rightarrow> (runPreviousUtilityHook, s))
      else (runPreviousUtilityHook, s))"

section \<open>database/database_sharding.c: the registry\<close>

definition InsertDatabaseShardAssignmentLocally :: "Oid \<Rightarrow> int32 \<Rightarrow> backend \<Rightarrow> backend" where
  "InsertDatabaseShardAssignmentLocally databaseOid nodeGroupId s =
     s\<lparr>database_shard := database_shard s @
         [\<lparr>database_id = databaseOid, node_group_id = nodeGroupId, is_available = True\<rparr>]\<rparr>"

definition InsertDatabaseShardAssignmentCommand ::
  "deparser \<Rightarrow> Oid \<Rightarrow> int32 \<Rightarrow> backend \<Rightarrow> error + string" where
  "InsertDatabaseShardAssignmentCommand d databaseOid nodeGroupId s =
     (case get_database_name s databaseOid of
        None \<Rightarrow> Inl NullDatabaseName
      | Some databaseName \<Rightarrow>
          Inr (''SELECT pg_catalog.citus_internal_add_database_shard(''
               @ quote_literal_cstr d databaseName @ '','' @ format_d nodeGroupId @ '')''))"

definition InsertDatabaseShardAssignmentOnOtherNodes ::
  "deparser \<Rightarrow> Oid \<Rightarrow> int32 \<Rightarrow> backend \<Rightarrow> error + backend" where
  "InsertDatabaseShardAssignmentOnOtherNodes d databaseOid nodeGroupId s =
     (case InsertDatabaseShardAssignmentCommand d databaseOid nodeGroupId s of
        Inl e \<Rightarrow> Inl e
      | Inr insertCommand \<Rightarrow> Inr (SendCommandToWorkersWithMetadata insertCommand s))"

definition InsertDatabaseShardAssignment ::
  "deparser \<Rightarrow> Oid \<Rightarrow> int32 \<Rightarrow> backend \<Rightarrow> error + backend" where
  "InsertDatabaseShardAssignment d databaseOid nodeGroupId s =
     (let s1 = InsertDatabaseShardAssignmentLocally databaseOid nodeGroupId s
      in if EnableMetadataSync s1
         then InsertDatabaseShardAssignmentOnOtherNodes d databaseOid nodeGroupId s1
         else Inr s1)"

text \<open>
  The index scan of \<open>DeleteDatabaseShardByDatabaseIdLocally\<close> fetches one tuple with
  the key and deletes it when there is one.
\<close>

fun delete_first_tuple :: "Oid \<Rightarrow> DatabaseShard list \<Rightarrow> DatabaseShard list" where
  "delete_first_tuple databaseOid [] = []"
| "delete_first_tuple databaseOid (heapTuple # tuples) =
     (if database_id heapTuple = databaseOid then tuples
      else heapTuple # delete_first_tuple databaseOid tuples)"

definition DeleteDatabaseShardByDatabaseIdLocally :: "Oid \<Rightarrow> backend \<Rightarrow> backend" where
  "DeleteDatabaseShardByDatabaseIdLocally databaseOid s =
     s\<lparr>database_shard := delete_first_tuple databaseOid (database_shard s)\<rparr>"

definition DeleteDatabaseShardByDatabaseIdCommand ::
  "deparser \<Rightarrow> Oid \<Rightarrow> backend \<Rightarrow> error + string" where
  "DeleteDatabaseShardByDatabaseIdCommand d databaseOid s =
     (case get_database_name s databaseOid of
        None \<Rightarrow> Inl NullDatabaseName
      | Some databaseName \<Rightarrow>
          Inr (''SELECT pg_catalog.citus_internal_delete_database_shard(''
               @ quote_literal_cstr d databaseName @ '')''))"

definition DeleteDatabaseShardByDatabaseIdOnOtherNodes ::
  "deparser \<Rightarrow> Oid \<Rightarrow> backend \<Rightarrow> error + backend" where
  "DeleteDatabaseShardByDatabaseIdOnOtherNodes d databaseOid s =
     (case DeleteDatabaseShardByDatabaseIdCommand d databaseOid s of
        Inl e \<Rightarrow> Inl e
      | Inr deleteCommand \<Rightarrow> Inr (SendCommandToWorkersWithMetadata deleteCommand s))"

definition DeleteDatabaseShardByDatabaseId :: "deparser \<Rightarrow> Oid \<Rightarrow> backend \<Rightarrow> error + backend" where
  "DeleteDatabaseShardByDatabaseId d databaseOid s =
     (let s1 = DeleteDatabaseShardByDatabaseIdLocally databaseOid s
      in if EnableMetadataSync s1
         then DeleteDatabaseShardByDatabaseIdOnOtherNodes d databaseOid s1
         else Inr s1)"

definition ListDatabaseShards :: "backend \<Rightarrow> DatabaseShard list" where
  "ListDatabaseShards s = database_shard s"

definition GetDatabaseShardByOid :: "backend \<Rightarrow> Oid \<Rightarrow> DatabaseShard option" where
  "GetDatabaseShardByOid s databaseOid =
     find (\<lambda>heapTuple. database_id heapTuple = databaseOid) (database_shard s)"

section \<open>database/database_sharding.c: the assignment\<close>

text \<open>
  The loop of \<open>AllowConnectionsOnlyOnNodeGroup\<close> over the node list. The name of the
  database was fetched before the loop; \<open>quote_identifier\<close> reads it in every
  iteration, which fails for the NULL of an unknown Oid.
\<close>

fun foreach_workerNode ::
  "deparser \<Rightarrow> string option \<Rightarrow> Oid \<Rightarrow> WorkerNode list \<Rightarrow> backend \<Rightarrow> error + backend" where
  "foreach_workerNode d databaseName nodeGroupId [] s = Inr s"
| "foreach_workerNode d databaseName nodeGroupId (workerNode # rest) s =
     (case databaseName of
        None \<Rightarrow> Inl NullDatabaseName
      | Some name \<Rightarrow>
          let command =
                (if groupId workerNode = nodeGroupId
                 then ''GRANT CONNECT ON DATABASE '' @ quote_identifier d name @ '' TO public''
                 else ''REVOKE CONNECT ON DATABASE '' @ quote_identifier d name
                      @ '' FROM public'')
          in foreach_workerNode d databaseName nodeGroupId rest
               (if groupId workerNode = GetLocalGroupId s
                then ExecuteQueryViaSPI command s
                else SendCommandToWorker (workerName workerNode) (workerPort workerNode)
                       command s))"

definition AllowConnectionsOnlyOnNodeGroup ::
  "deparser \<Rightarrow> Oid \<Rightarrow> Oid \<Rightarrow> backend \<Rightarrow> error + backend" where
  "AllowConnectionsOnlyOnNodeGroup d databaseOid nodeGroupId s =
     (let databaseName = get_database_name s databaseOid;
          workerNodes = TargetWorkerSetNodeList s
      in foreach_workerNode d databaseName nodeGroupId workerNodes s)"

text \<open>
  \<open>AssignDatabaseToShard\<close>: the local group, or the group of the node at index
  \<open>databaseOid % list_length(workerNodes)\<close> (an unsigned remainder, below the
  length) when the node list is not empty.
\<close>

definition AssignDatabaseToShard :: "deparser \<Rightarrow> Oid \<Rightarrow> backend \<Rightarrow> error + backend" where
  "AssignDatabaseToShard d databaseOid s =
     (let workerNodes = TargetWorkerSetNodeList s;
          nodeGroupId =
            (if length workerNodes > 0
             then let workerNodeIndex = unat databaseOid mod length workerNodes
                  in groupId (workerNodes ! workerNodeIndex)
             else GetLocalGroupId s)
      in case InsertDatabaseShardAssignment d databaseOid nodeGroupId s of
           Inl e \<Rightarrow> Inl e
         | Inr s1 \<Rightarrow>
             (case AllowConnectionsOnlyOnNodeGroup d databaseOid nodeGroupId s1 of
                Inl e \<Rightarrow> Inl e
              | Inr s2 \<Rightarrow> Inr (s2\<lparr>ReconfigurePgBouncersOnCommit := True\<rparr>)))"

text \<open>
  \<open>database_shard_assign\<close>, after its version check (\<open>CheckCitusVersion\<close>, which
  is not part of the model): the database must exist, the caller must own it, and it
  must have no registry row yet.
\<close>

definition database_shard_assign :: "deparser \<Rightarrow> string \<Rightarrow> backend \<Rightarrow> error + backend" where
  "database_shard_assign d databaseName s =
     (case get_database_oid s databaseName False of
        Inl e \<Rightarrow> Inl e
      | Inr databaseOid \<Rightarrow>
          if \<not> pg_database_ownercheck s databaseOid
          then Inl (InsufficientPrivilege databaseName)
          else if GetDatabaseShardByOid s databaseOid \<noteq> None
          then Inl AlreadyAssigned
          else AssignDatabaseToShard d databaseOid s)"

definition UpdateDatabaseShard :: "deparser \<Rightarrow> Oid \<Rightarrow> int32 \<Rightarrow> backend \<Rightarrow> error + backend" where
  "UpdateDatabaseShard d databaseOid targetNodeGroupId s =
     (case DeleteDatabaseShardByDatabaseId d databaseOid s of
        Inl e \<Rightarrow> Inl e
      | Inr s1 \<Rightarrow>
          (case InsertDatabaseShardAssignment d databaseOid targetNodeGroupId s1 of
             Inl e \<Rightarrow> Inl e
           | Inr s2 \<Rightarrow>
               (case AllowConnectionsOnlyOnNodeGroup d databaseOid targetNodeGroupId s2 of
                  Inl e \<Rightarrow> Inl e
                | Inr s3 \<Rightarrow> Inr (s3\<lparr>ReconfigurePgBouncersOnCommit := True\<rparr>))))"

definition citus_internal_add_database_shard :: "string \<Rightarrow> int32 \<Rightarrow> backend \<Rightarrow> error + backend" where
  "citus_internal_add_database_shard databaseName nodeGroupId s =
     (case get_database_oid s databaseName False of
        Inl e \<Rightarrow> Inl e
      | Inr databaseOid \<Rightarrow>
          if \<not> pg_database_ownercheck s databaseOid then Inl (NotOwner databaseName)
          else Inr ((InsertDatabaseShardAssignmentLocally databaseOid nodeGroupId s)
                      \<lparr>ReconfigurePgBouncersOnCommit := True\<rparr>))"

definition citus_internal_delete_database_shard :: "string \<Rightarrow> backend \<Rightarrow> error + backend" where
  "citus_internal_delete_database_shard databaseName s =
     (case get_database_oid s databaseName False of
        Inl e \<Rightarrow> Inl e
      | Inr databaseOid \<Rightarrow>
          if \<not> pg_database_ownercheck s databaseOid then Inl (NotOwner databaseName)
          else Inr ((DeleteDatabaseShardByDatabaseIdLocally databaseOid s)
                      \<lparr>ReconfigurePgBouncersOnCommit := True\<rparr>))"

section \<open>Vocabulary of the specification\<close>

text \<open>
  The placement policy in the words of the specification: the coordinator's own group
  when no worker is registered, otherwise the group of
  \<open>workers[databaseId mod workerCount]\<close>.
\<close>

definition assign_policy :: "backend \<Rightarrow> Oid \<Rightarrow> int32" where
  "assign_policy s databaseId =
     (if all_shard_nodes s = [] then LocalGroupId s
      else groupId (all_shard_nodes s ! (unat databaseId mod length (all_shard_nodes s))))"

text \<open>
  The two privilege statements, and the event by which a statement reaches a node: run
  through SPI on the node of the local group, sent to the node's address otherwise.
\<close>

definition grant_connect :: "deparser \<Rightarrow> string \<Rightarrow> string" where
  "grant_connect d dbname = ''GRANT CONNECT ON DATABASE '' @ quote_identifier d dbname @ '' TO public''"

definition revoke_connect :: "deparser \<Rightarrow> string \<Rightarrow> string" where
  "revoke_connect d dbname =
     ''REVOKE CONNECT ON DATABASE '' @ quote_identifier d dbname @ '' FROM public''"

definition command_on_node :: "backend \<Rightarrow> WorkerNode \<Rightarrow> string \<Rightarrow> event" where
  "command_on_node s node command =
     (if groupId node = LocalGroupId s then SPIQuery command
      else WorkerCommand (workerName node) (workerPort node) command)"

text \<open>The sweep the specification describes: one statement per node, in list order.\<close>

definition connect_sweep :: "deparser \<Rightarrow> string \<Rightarrow> int32 \<Rightarrow> backend \<Rightarrow> event list" where
  "connect_sweep d dbname assigned s =
     map (\<lambda>node. command_on_node s node
                   (if groupId node = assigned then grant_connect d dbname
                    else revoke_connect d dbname))
         (all_shard_nodes s)"

text \<open>
  The node table has one row per address: two entries of the node list with the same
  name and port are in the same group.
\<close>

definition node_addresses_unique :: "WorkerNode list \<Rightarrow> bool" where
  "node_addresses_unique nodes =
     (\<forall>a \<in> set nodes. \<forall>b \<in> set nodes.
        workerName a = workerName b \<and> workerPort a = workerPort b \<longrightarrow> groupId a = groupId b)"


text \<open>
  The connection to the control database, and the four events of a delegated
  statement: the connection is opened, tagged, used for the statement, and closed.
\<close>

definition control_connection :: "backend \<Rightarrow> MultiConnection" where
  "control_connection s =
     \<lparr>connectionFlags = FORCE_NEW_CONNECTION, hostname = LocalHostName s,
      port = PostPortNumber s, user = None, database = CitusMainDatabase s\<rparr>"

definition delegated :: "backend \<Rightarrow> string \<Rightarrow> event list" where
  "delegated s command =
     [ConnectionOpened (control_connection s),
      CriticalRemoteCommand (control_connection s) set_application_name,
      CriticalRemoteCommand (control_connection s) command,
      ConnectionClosed (control_connection s)]"

section \<open>Well-formed catalogs and example configurations\<close>

text \<open>
  \<open>pg_database\<close> has a unique index on the name, and no row has the Oid
  \<open>InvalidOid\<close>. A stack entry is never deeper than the current nest level.
\<close>

definition catalog_ok :: "backend \<Rightarrow> bool" where
  "catalog_ok s =
     (distinct (map fst (pg_database s)) \<and> (\<forall>row \<in> set (pg_database s). OidIsValid (snd row)))"

definition count_databases :: "string \<Rightarrow> backend \<Rightarrow> nat" where
  "count_databases dbname s = length (filter (\<lambda>row. fst row = dbname) (pg_database s))"

definition stack_ok :: "nat \<Rightarrow> config_bool \<Rightarrow> bool" where
  "stack_ok level gconf = (\<forall>entry \<in> set (stack gconf). nest_level entry \<le> level)"

text \<open>
  A backend inside a transaction (nest level 1) with both propagation settings on, the
  databases \<open>postgres\<close>, \<open>citus\<close> (the control database) and \<open>shopdb\<close> (to
  which the session is connected), and no worker node; a parser that knows four
  statements; a deparser that quotes nothing.
\<close>

definition example_backend :: backend where
  "example_backend =
     \<lparr>pg_database = [(''postgres'', 5), (''citus'', 16383), (''shopdb'', 16384)],
      MyDatabaseId = 16384, nextOid = 16385,
      GUCNestLevel = 1,
      EnableDDLPropagation = \<lparr>variable = True, stack = []\<rparr>,
      EnableCreateDatabasePropagation = \<lparr>variable = True, stack = []\<rparr>,
      EnableDatabaseSharding = True, EnableMetadataSync = False, LocalGroupId = 0,
      all_shard_nodes = [], owned_databases = [16384], database_shard = [],
      ReconfigurePgBouncersOnCommit = False, LocalHostName = ''localhost'',
      PostPortNumber = 5432, CitusMainDatabase = ''citus'', issued = []\<rparr>"

definition example_parser :: "string \<Rightarrow> error + Node" where
  "example_parser command =
     (if command = ''CREATE DATABASE appdb'' then Inr (CreatedbStmt ''appdb'')
      else if command = ''DROP DATABASE appdb'' then Inr (DropdbStmt ''appdb'' False)
      else if command = ''DROP DATABASE IF EXISTS appdb'' then Inr (DropdbStmt ''appdb'' True)
      else if command = ''CREATE TABLE t (a int)'' then Inr (OtherStmt 1)
      else Inl (SyntaxError command))"

definition example_deparser :: deparser where
  "example_deparser =
     \<lparr>DeparseCreatedbStmt = (\<lambda>stmt. case stmt of CreatedbStmt dbname \<Rightarrow> ''CREATE DATABASE '' @ dbname
                                  | _ \<Rightarrow> ''''),
      DeparseDropdbStmt = (\<lambda>stmt. case stmt of DropdbStmt dbname missing_ok \<Rightarrow> ''DROP DATABASE '' @ dbname
                                | _ \<Rightarrow> ''''),
      quote_identifier = (\<lambda>ident. ident),
      quote_literal_cstr = (\<lambda>rawstr. CHR 0x27 # rawstr @ [CHR 0x27])\<rparr>"

text \<open>Three workers in the groups 10, 20 and 30, and the example backend with them.\<close>

definition worker_a :: WorkerNode where
  "worker_a = \<lparr>workerName = ''worker-a'', workerPort = 5432, groupId = 10\<rparr>"

definition worker_b :: WorkerNode where
  "worker_b = \<lparr>workerName = ''worker-b'', workerPort = 5432, groupId = 20\<rparr>"

definition worker_c :: WorkerNode where
  "worker_c = \<lparr>workerName = ''worker-c'', workerPort = 5432, groupId = 30\<rparr>"

definition three_workers :: "WorkerNode list" where
  "three_workers = [worker_a, worker_b, worker_c]"

definition three_workers_backend :: backend where
  "three_workers_backend = example_backend\<lparr>all_shard_nodes := three_workers\<rparr>"

text \<open>The backend with three workers after \<open>shopdb\<close> was assigned to group 20.\<close>

definition assigned_backend :: backend where
  "assigned_backend =
     three_workers_backend
       \<lparr>database_shard := [\<lparr>database_id = 16384, node_group_id = 20, is_available = True\<rparr>]\<rparr>"

text \<open>
  What an operation may do to the registry when it never writes an unavailable row and
  never updates a row in place: every row after it is a row from before it, or is
  available.
\<close>

definition only_available_rows_added :: "backend \<Rightarrow> backend \<Rightarrow> bool" where
  "only_available_rows_added s s' =
     (\<forall>row \<in> set (database_shard s'). row \<in> set (database_shard s) \<or> is_available row)"

section \<open>Properties of the replay entry point\<close>

declare pop_stack.simps [simp del]
declare string_of_nat.simps [simp del]

lemmas replay_defs = citus_internal_database_command_def NewGUCNestLevel_def
  set_config_option_def database_command_branches_def get_database_oid_def AtEOXact_GUC_def

subsection \<open>Drop\<close>

lemma drop_of_existing_database:
  assumes "ParseTreeNode command = Inr (DropdbStmt dbname missing_ok)"
      and "map_of (pg_database s) dbname = Some oid" and "OidIsValid oid"
  shows "\<exists>s'. citus_internal_database_command ParseTreeNode command s = (Returned, s') \<and>
          pg_database s' = filter (\<lambda>(n, _). n \<noteq> dbname) (pg_database s)"
  using assms
  by (simp add: replay_defs DropDatabase_def)

lemma drop_of_absent_database_raises:
  assumes "ParseTreeNode command = Inr (DropdbStmt dbname missing_ok)"
      and "map_of (pg_database s) dbname = None"
  shows "fst (citus_internal_database_command ParseTreeNode command s)
           = Raised (UndefinedDatabase dbname)"
  using assms
  by (simp add: replay_defs OidIsValid_def InvalidOid_def)

text \<open>
  C1. Replay of a drop statement: the deletion is applied when the database exists
  (\<open>drop_of_existing_database\<close>). When it does not exist the replay is meant to be a
  silent no-op, and the test \<open>OidIsValid(databaseOid)\<close> of line 338 is written for
  that; but \<open>get_database_oid\<close> is called with \<open>missingOk = false\<close> and raises before
  the test (\<open>drop_of_absent_database_raises\<close>). The example backend has no database
  \<open>appdb\<close>: the replay of \<open>DROP DATABASE appdb\<close>, and of the same statement with
  IF EXISTS, raises \<open>UndefinedDatabase\<close>.
\<close>

theorem C1_drop_of_absent_database_raises:
  "map_of (pg_database example_backend) ''appdb'' = None \<and>
   fst (citus_internal_database_command example_parser ''DROP DATABASE appdb'' example_backend)
     = Raised (UndefinedDatabase ''appdb'') \<and>
   fst (citus_internal_database_command example_parser ''DROP DATABASE IF EXISTS appdb''
          example_backend)
     = Raised (UndefinedDatabase ''appdb'')"
  by (simp add: replay_defs OidIsValid_def InvalidOid_def example_parser_def example_backend_def)

subsection \<open>Create\<close>

lemma GetNewOid_valid: "OidIsValid (fst (GetNewOid s))"
  by (simp add: GetNewOid_def OidIsValid_def InvalidOid_def Let_def)

lemma create_of_absent_database:
  assumes "ParseTreeNode command = Inr (CreatedbStmt dbname)"
      and "map_of (pg_database s) dbname = None"
  shows "\<exists>s'. citus_internal_database_command ParseTreeNode command s = (Returned, s') \<and>
          pg_database s' = pg_database s @ [(dbname, fst (GetNewOid s))]"
  using assms
  by (simp add: replay_defs createdb_def GetNewOid_def OidIsValid_def InvalidOid_def Let_def)

lemma create_of_existing_database:
  assumes "ParseTreeNode command = Inr (CreatedbStmt dbname)"
      and "map_of (pg_database s) dbname = Some oid" and "OidIsValid oid"
  shows "\<exists>s'. citus_internal_database_command ParseTreeNode command s = (Returned, s') \<and>
          pg_database s' = pg_database s"
  using assms
  by (simp add: replay_defs)

lemma filter_absent: "map_of rows k = None \<Longrightarrow> filter (\<lambda>row. fst row = k) rows = []"
  by (induction rows) (auto split: if_splits)

lemma count_present:
  "distinct (map fst rows) \<Longrightarrow> map_of rows k = Some v \<Longrightarrow>
   length (filter (\<lambda>row. fst row = k) rows) = 1"
proof (induction rows)
  case Nil
  then show ?case by simp
next
  case (Cons row rows)
  show ?case
  proof (cases "fst row = k")
    case True
    with Cons.prems have "k \<notin> fst ` set rows" by auto
    then have "map_of rows k = None" by (simp add: map_of_eq_None_iff)
    with True show ?thesis by (simp add: filter_absent)
  next
    case False
    with Cons show ?thesis by (cases row) auto
  qed
qed

lemma catalog_ok_lookup:
  "catalog_ok s \<Longrightarrow> map_of (pg_database s) dbname = Some oid \<Longrightarrow> OidIsValid oid"
  by (auto simp: catalog_ok_def dest: map_of_SomeD)

text \<open>
  C2. Replay of a create statement on a well-formed catalog: a database that does not
  exist is created (one row with its name is added); for a database that exists the
  call returns and leaves the catalog as it was. Hence two replays of the same text
  both return, the second changes nothing, and the catalog then holds exactly one
  database of that name.
\<close>

theorem C2_create_replay:
  assumes parse: "ParseTreeNode command = Inr (CreatedbStmt dbname)"
      and ok: "catalog_ok s"
  shows "(map_of (pg_database s) dbname = None \<longrightarrow>
            (\<exists>oid s'. citus_internal_database_command ParseTreeNode command s = (Returned, s') \<and>
                       pg_database s' = pg_database s @ [(dbname, oid)])) \<and>
         (map_of (pg_database s) dbname \<noteq> None \<longrightarrow>
            (\<exists>s'. citus_internal_database_command ParseTreeNode command s = (Returned, s') \<and>
                   pg_database s' = pg_database s)) \<and>
         (\<exists>s1 s2. citus_internal_database_command ParseTreeNode command s = (Returned, s1) \<and>
                   citus_internal_database_command ParseTreeNode command s1 = (Returned, s2) \<and>
                   pg_database s2 = pg_database s1 \<and> count_databases dbname s2 = 1)"
proof (intro conjI impI)
  assume "map_of (pg_database s) dbname = None"
  from create_of_absent_database [of ParseTreeNode command dbname s, OF parse this]
  show "\<exists>oid s'. citus_internal_database_command ParseTreeNode command s = (Returned, s') \<and>
                   pg_database s' = pg_database s @ [(dbname, oid)]"
    by blast
next
  assume "map_of (pg_database s) dbname \<noteq> None"
  then obtain oid where found: "map_of (pg_database s) dbname = Some oid" by blast
  from create_of_existing_database
         [of ParseTreeNode command dbname s, OF parse found catalog_ok_lookup [OF ok found]]
  show "\<exists>s'. citus_internal_database_command ParseTreeNode command s = (Returned, s') \<and>
              pg_database s' = pg_database s" .
next
  show "\<exists>s1 s2. citus_internal_database_command ParseTreeNode command s = (Returned, s1) \<and>
                 citus_internal_database_command ParseTreeNode command s1 = (Returned, s2) \<and>
                 pg_database s2 = pg_database s1 \<and> count_databases dbname s2 = 1"
  proof (cases "map_of (pg_database s) dbname")
    case None
    from create_of_absent_database [of ParseTreeNode command dbname s, OF parse None]
    obtain s1 where
      first: "citus_internal_database_command ParseTreeNode command s = (Returned, s1)" and
      cat1: "pg_database s1 = pg_database s @ [(dbname, fst (GetNewOid s))]"
      by blast
    from cat1 None have found1: "map_of (pg_database s1) dbname = Some (fst (GetNewOid s))"
      by (simp add: map_add_Some_iff)
    from create_of_existing_database
           [of ParseTreeNode command dbname s1, OF parse found1 GetNewOid_valid]
    obtain s2 where
      second: "citus_internal_database_command ParseTreeNode command s1 = (Returned, s2)" and
      cat2: "pg_database s2 = pg_database s1"
      by blast
    from cat1 cat2 None have "count_databases dbname s2 = 1"
      by (simp add: count_databases_def filter_absent)
    with first second cat2 show ?thesis by blast
  next
    case (Some oid)
    from create_of_existing_database
           [of ParseTreeNode command dbname s, OF parse Some catalog_ok_lookup [OF ok Some]]
    obtain s1 where
      first: "citus_internal_database_command ParseTreeNode command s = (Returned, s1)" and
      cat1: "pg_database s1 = pg_database s"
      by blast
    from Some cat1 have found1: "map_of (pg_database s1) dbname = Some oid" by simp
    from create_of_existing_database
           [of ParseTreeNode command dbname s1, OF parse found1 catalog_ok_lookup [OF ok Some]]
    obtain s2 where
      second: "citus_internal_database_command ParseTreeNode command s1 = (Returned, s2)" and
      cat2: "pg_database s2 = pg_database s1"
      by blast
    from ok Some cat1 cat2 have "count_databases dbname s2 = 1"
      by (simp add: count_databases_def catalog_ok_def count_present)
    with first second cat2 show ?thesis by blast
  qed
qed

theorem C2_create_replay_witness:
  "catalog_ok example_backend \<and>
   example_parser ''CREATE DATABASE appdb'' = Inr (CreatedbStmt ''appdb'') \<and>
   map_of (pg_database example_backend) ''appdb'' = None \<and>
   (\<exists>oid s'. citus_internal_database_command example_parser ''CREATE DATABASE appdb''
                example_backend = (Returned, s') \<and>
              pg_database s' = pg_database example_backend @ [(''appdb'', oid)]) \<and>
   (\<exists>s1 s2. citus_internal_database_command example_parser ''CREATE DATABASE appdb''
               example_backend = (Returned, s1) \<and>
             citus_internal_database_command example_parser ''CREATE DATABASE appdb'' s1
               = (Returned, s2) \<and>
             pg_database s2 = pg_database s1 \<and> count_databases ''appdb'' s2 = 1) \<and>
   catalog_ok (example_backend\<lparr>pg_database := [(''appdb'', 16390)]\<rparr>) \<and>
   map_of (pg_database (example_backend\<lparr>pg_database := [(''appdb'', 16390)]\<rparr>)) ''appdb'' \<noteq> None \<and>
   (\<exists>s'. citus_internal_database_command example_parser ''CREATE DATABASE appdb''
            (example_backend\<lparr>pg_database := [(''appdb'', 16390)]\<rparr>) = (Returned, s') \<and>
          pg_database s' = [(''appdb'', 16390)])"
proof -
  have parse: "example_parser ''CREATE DATABASE appdb'' = Inr (CreatedbStmt ''appdb'')"
    by (simp add: example_parser_def)
  have ok: "catalog_ok example_backend"
    by (simp add: catalog_ok_def example_backend_def OidIsValid_def InvalidOid_def)
  have absent: "map_of (pg_database example_backend) ''appdb'' = None"
    by (simp add: example_backend_def)
  have ok': "catalog_ok (example_backend\<lparr>pg_database := [(''appdb'', 16390)]\<rparr>)"
    by (simp add: catalog_ok_def OidIsValid_def InvalidOid_def)
  have present:
    "map_of (pg_database (example_backend\<lparr>pg_database := [(''appdb'', 16390)]\<rparr>)) ''appdb'' \<noteq> None"
    by simp
  from C2_create_replay [of example_parser "''CREATE DATABASE appdb''" "''appdb''"
         example_backend, OF parse ok]
       C2_create_replay [of example_parser "''CREATE DATABASE appdb''" "''appdb''"
         "example_backend\<lparr>pg_database := [(''appdb'', 16390)]\<rparr>", OF parse ok']
       parse ok absent ok' present
  show ?thesis by simp
qed

subsection \<open>The two settings\<close>

lemma pop_stack_done:
  "stack gconf = [] \<or> nest_level (hd (stack gconf)) < nestLevel \<Longrightarrow>
   pop_stack isCommit nestLevel gconf = gconf"
  by (subst pop_stack.simps) (auto split: list.splits)

lemma nest_level_merge [simp]: "nest_level (merge_into_prev entry prev) = nest_level prev"
  by (simp add: merge_into_prev_def split: GucStackState.splits)

text \<open>
  A LOCAL entry of a nest level above 1 is not restored when that level commits: the
  value stays, for the rest of the transaction.
\<close>

lemma pop_stack_commit_local:
  assumes "stack gconf = entry # rest" and "nest_level entry = nestLevel" and "2 \<le> nestLevel"
      and "state entry = GUC_LOCAL" and "\<forall>below \<in> set rest. nest_level below < nestLevel"
  shows "variable (pop_stack True nestLevel gconf) = variable gconf"
proof (cases rest)
  case Nil
  with assms show ?thesis
    by (subst pop_stack.simps) (simp add: pop_stack_done)
next
  case (Cons prev below)
  with assms show ?thesis
    by (subst pop_stack.simps) (simp add: pop_stack_done)
qed

lemma pop_stack_abort:
  assumes "stack gconf = entry # rest" and "nest_level entry = nestLevel" and "0 < nestLevel"
      and "\<forall>below \<in> set rest. nest_level below < nestLevel"
  shows "pop_stack False nestLevel gconf = gconf\<lparr>variable := prior entry, stack := rest\<rparr>"
  using assms
  by (subst pop_stack.simps) (cases rest; simp add: pop_stack_done)

lemma push_old_value_fresh:
  "stack_ok level gconf \<Longrightarrow>
   stack (push_old_value (Suc level) action gconf)
     = new_entry (Suc level) action (variable gconf) # stack gconf"
  by (cases "stack gconf") (auto simp: push_old_value_def stack_ok_def)

lemma push_old_value_variable [simp]:
  "variable (push_old_value level action gconf) = variable gconf"
  by (simp add: push_old_value_def split: list.splits)

lemma branches_keep_settings:
  "database_command_branches parseTree s = Inr s' \<Longrightarrow>
   EnableDDLPropagation s' = EnableDDLPropagation s \<and>
   EnableCreateDatabasePropagation s' = EnableCreateDatabasePropagation s \<and>
   GUCNestLevel s' = GUCNestLevel s"
  by (auto simp: database_command_branches_def get_database_oid_def createdb_def GetNewOid_def
        DropDatabase_def Let_def split: Node.splits if_splits option.splits)

lemma turned_off_survives_commit:
  assumes "stack_ok level gconf" and "1 \<le> level"
  shows "variable (pop_stack True (Suc level)
            ((push_old_value (Suc level) GUC_ACTION_LOCAL gconf)\<lparr>variable := False\<rparr>)) = False"
proof -
  let ?g = "(push_old_value (Suc level) GUC_ACTION_LOCAL gconf)\<lparr>variable := False\<rparr>"
  have st: "stack ?g = new_entry (Suc level) GUC_ACTION_LOCAL (variable gconf) # stack gconf"
    using assms(1) by (simp add: push_old_value_fresh)
  have below: "\<forall>below \<in> set (stack gconf). nest_level below < Suc level"
    using assms(1) by (auto simp: stack_ok_def)
  have "variable (pop_stack True (Suc level) ?g) = variable ?g"
    using assms(2) below
    by (intro pop_stack_commit_local [OF st]) (simp_all add: new_entry_def)
  then show ?thesis by simp
qed

text \<open>
  In a backend inside a transaction, every call whose text parses ends with both
  settings off, whether it returns or raises.
\<close>

lemma replay_keeps_settings_off:
  assumes parse: "ParseTreeNode command = Inr parseTree"
      and level: "1 \<le> GUCNestLevel s"
      and ddl: "stack_ok (GUCNestLevel s) (EnableDDLPropagation s)"
      and cre: "stack_ok (GUCNestLevel s) (EnableCreateDatabasePropagation s)"
  shows "variable (EnableDDLPropagation
                     (snd (citus_internal_database_command ParseTreeNode command s))) = False \<and>
         variable (EnableCreateDatabasePropagation
                     (snd (citus_internal_database_command ParseTreeNode command s))) = False"
proof -
  let ?s3 = "set_config_option enable_create_database_propagation False GUC_ACTION_LOCAL
               (set_config_option enable_ddl_propagation False GUC_ACTION_LOCAL
                  (snd (NewGUCNestLevel s)))"
  show ?thesis
  proof (cases "database_command_branches parseTree ?s3")
    case (Inl e)
    with parse show ?thesis
      by (simp add: citus_internal_database_command_def NewGUCNestLevel_def set_config_option_def)
  next
    case (Inr s4)
    from branches_keep_settings [OF Inr]
    have keep: "EnableDDLPropagation s4 = EnableDDLPropagation ?s3"
               "EnableCreateDatabasePropagation s4 = EnableCreateDatabasePropagation ?s3"
      by simp_all
    from parse Inr keep turned_off_survives_commit [OF ddl level]
      turned_off_survives_commit [OF cre level]
    show ?thesis
      by (simp add: citus_internal_database_command_def NewGUCNestLevel_def set_config_option_def
            AtEOXact_GUC_def)
  qed
qed

text \<open>
  After a call that raised, the abort of the enclosing (sub)transaction, which runs
  \<open>AtEOXact_GUC(false, ...)\<close> for the nest level the call opened, puts both settings
  and the nest level back.
\<close>

lemma abort_restores_settings:
  assumes raised: "citus_internal_database_command ParseTreeNode command s = (Raised e, s')"
      and ddl: "stack_ok (GUCNestLevel s) (EnableDDLPropagation s)"
      and cre: "stack_ok (GUCNestLevel s) (EnableCreateDatabasePropagation s)"
  shows "EnableDDLPropagation (AtEOXact_GUC False (Suc (GUCNestLevel s)) s')
           = EnableDDLPropagation s \<and>
         EnableCreateDatabasePropagation (AtEOXact_GUC False (Suc (GUCNestLevel s)) s')
           = EnableCreateDatabasePropagation s \<and>
         GUCNestLevel (AtEOXact_GUC False (Suc (GUCNestLevel s)) s') = GUCNestLevel s"
proof -
  have undo: "pop_stack False (Suc (GUCNestLevel s))
                ((push_old_value (Suc (GUCNestLevel s)) GUC_ACTION_LOCAL gconf)
                   \<lparr>variable := False\<rparr>) = gconf"
    if "stack_ok (GUCNestLevel s) gconf" for gconf
  proof -
    let ?g = "(push_old_value (Suc (GUCNestLevel s)) GUC_ACTION_LOCAL gconf)\<lparr>variable := False\<rparr>"
    have st: "stack ?g
                = new_entry (Suc (GUCNestLevel s)) GUC_ACTION_LOCAL (variable gconf) # stack gconf"
      using that by (simp add: push_old_value_fresh)
    have below: "\<forall>below \<in> set (stack gconf). nest_level below < Suc (GUCNestLevel s)"
      using that by (auto simp: stack_ok_def)
    have "pop_stack False (Suc (GUCNestLevel s)) ?g
            = ?g\<lparr>variable := prior (new_entry (Suc (GUCNestLevel s)) GUC_ACTION_LOCAL
                                        (variable gconf)),
                 stack := stack gconf\<rparr>"
      using below by (intro pop_stack_abort [OF st]) (simp_all add: new_entry_def)
    then show ?thesis by (simp add: new_entry_def)
  qed
  have untouched: "pop_stack False (Suc (GUCNestLevel s)) gconf = gconf"
    if "stack_ok (GUCNestLevel s) gconf" for gconf
    using that by (intro pop_stack_done) (cases "stack gconf"; auto simp: stack_ok_def)
  show ?thesis
  proof (cases "ParseTreeNode command")
    case (Inl err)
    with raised untouched [OF ddl] untouched [OF cre] show ?thesis
      by (auto simp: citus_internal_database_command_def NewGUCNestLevel_def AtEOXact_GUC_def)
  next
    case (Inr parseTree)
    with raised undo [OF ddl] undo [OF cre] show ?thesis
      by (auto simp: citus_internal_database_command_def NewGUCNestLevel_def AtEOXact_GUC_def
            set_config_option_def Let_def split: sum.splits)
  qed
qed

text \<open>
  C3. Both settings are meant to have their values from before the call after every
  call; the comment on line 348 says that \<open>AtEOXact_GUC(true, saveNestLevel)\<close> rolls
  them back. The settings are turned off with \<open>GUC_ACTION_LOCAL\<close>, though, and a
  LOCAL entry is kept when its nest level commits (\<open>replay_keeps_settings_off\<close>). In
  the example backend both settings are on; the replay of \<open>CREATE DATABASE appdb\<close>
  returns and both settings are off after it. The replay of a table creation raises
  before line 349 is reached, and both settings are off at the raise.
\<close>

theorem C3_settings_stay_off:
  "variable (EnableDDLPropagation example_backend) = True \<and>
   variable (EnableCreateDatabasePropagation example_backend) = True \<and>
   fst (citus_internal_database_command example_parser ''CREATE DATABASE appdb''
          example_backend) = Returned \<and>
   variable (EnableDDLPropagation
     (snd (citus_internal_database_command example_parser ''CREATE DATABASE appdb''
             example_backend))) = False \<and>
   variable (EnableCreateDatabasePropagation
     (snd (citus_internal_database_command example_parser ''CREATE DATABASE appdb''
             example_backend))) = False \<and>
   fst (citus_internal_database_command example_parser ''CREATE TABLE t (a int)''
          example_backend) = Raised (UnsupportedCommandType 1) \<and>
   variable (EnableDDLPropagation
     (snd (citus_internal_database_command example_parser ''CREATE TABLE t (a int)''
             example_backend))) = False \<and>
   variable (EnableCreateDatabasePropagation
     (snd (citus_internal_database_command example_parser ''CREATE TABLE t (a int)''
             example_backend))) = False"
  by (simp add: replay_defs example_parser_def example_backend_def createdb_def GetNewOid_def
        OidIsValid_def InvalidOid_def push_old_value_def new_entry_def pop_stack.simps)

text \<open>
  The settings come back when the transaction ends: at its commit (nest level 1) the
  LOCAL entries restore the prior values.
\<close>

lemma settings_return_at_transaction_end:
  "variable (EnableDDLPropagation (AtEOXact_GUC True 1
     (snd (citus_internal_database_command example_parser ''CREATE DATABASE appdb''
             example_backend)))) = True \<and>
   variable (EnableCreateDatabasePropagation (AtEOXact_GUC True 1
     (snd (citus_internal_database_command example_parser ''CREATE DATABASE appdb''
             example_backend)))) = True"
  by (simp add: replay_defs example_parser_def example_backend_def createdb_def GetNewOid_def
        OidIsValid_def InvalidOid_def push_old_value_def new_entry_def pop_stack.simps)

subsection \<open>Other statements\<close>

text \<open>
  C4. Replay of a statement that is neither a create nor a drop of a database raises
  the error for an unsupported command type, and the catalog \<open>pg_database\<close>, the Oid
  counter, the registry and the list of issued commands are as before the call.
\<close>

theorem C4_unsupported_statement:
  assumes "ParseTreeNode command = Inr (OtherStmt tag)"
  shows "\<exists>s'. citus_internal_database_command ParseTreeNode command s
                = (Raised (UnsupportedCommandType tag), s') \<and>
              pg_database s' = pg_database s \<and> database_shard s' = database_shard s \<and>
              nextOid s' = nextOid s \<and> issued s' = issued s"
  using assms by (simp add: replay_defs)

theorem C4_unsupported_statement_witness:
  "example_parser ''CREATE TABLE t (a int)'' = Inr (OtherStmt 1) \<and>
   (\<exists>s'. citus_internal_database_command example_parser ''CREATE TABLE t (a int)''
            example_backend = (Raised (UnsupportedCommandType 1), s') \<and>
          pg_database s' = pg_database example_backend \<and>
          database_shard s' = database_shard example_backend \<and>
          nextOid s' = nextOid example_backend \<and> issued s' = issued example_backend)"
proof -
  have parse: "example_parser ''CREATE TABLE t (a int)'' = Inr (OtherStmt 1)"
    by (simp add: example_parser_def)
  from C4_unsupported_statement [of example_parser "''CREATE TABLE t (a int)''" 1
         example_backend, OF parse] parse
  show ?thesis by simp
qed

section \<open>Properties of the assignment\<close>

subsection \<open>The steps and what they leave behind\<close>

lemma foreach_workerNode_None:
  "foreach_workerNode d None assigned nodes s = (if nodes = [] then Inr s else Inl NullDatabaseName)"
  by (cases nodes) simp_all

lemma foreach_workerNode_Some:
  "foreach_workerNode d (Some dbname) assigned nodes s =
     Inr (s\<lparr>issued := issued s @
            map (\<lambda>node. command_on_node s node
                          (if groupId node = assigned then grant_connect d dbname
                           else revoke_connect d dbname)) nodes\<rparr>)"
proof (induction nodes arbitrary: s)
  case Nil
  show ?case by simp
next
  case (Cons node nodes)
  show ?case
    by (simp add: Cons.IH Let_def GetLocalGroupId_def ExecuteQueryViaSPI_def
          SendCommandToWorker_def command_on_node_def grant_connect_def revoke_connect_def)
qed

lemma sweep_result:
  assumes "AllowConnectionsOnlyOnNodeGroup d databaseOid assigned s = Inr s'"
      and "get_database_name s databaseOid = Some dbname"
  shows "s' = s\<lparr>issued := issued s @ connect_sweep d dbname assigned s\<rparr>"
  using assms
  by (simp add: AllowConnectionsOnlyOnNodeGroup_def TargetWorkerSetNodeList_def
        foreach_workerNode_Some connect_sweep_def)

lemma sweep_without_nodes:
  assumes "AllowConnectionsOnlyOnNodeGroup d databaseOid assigned s = Inr s'"
      and "all_shard_nodes s = []"
  shows "s' = s"
  using assms
  by (simp add: AllowConnectionsOnlyOnNodeGroup_def TargetWorkerSetNodeList_def)

lemma sweep_keeps_registry:
  assumes "AllowConnectionsOnlyOnNodeGroup d databaseOid assigned s = Inr s'"
  shows "database_shard s' = database_shard s"
  using assms
  by (cases "get_database_name s databaseOid")
     (auto simp: AllowConnectionsOnlyOnNodeGroup_def TargetWorkerSetNodeList_def
        foreach_workerNode_Some foreach_workerNode_None split: if_splits)

lemma insert_result:
  assumes "InsertDatabaseShardAssignment d databaseOid assigned s = Inr s'"
  shows "database_shard s' = database_shard s @
           [\<lparr>database_id = databaseOid, node_group_id = assigned, is_available = True\<rparr>] \<and>
         all_shard_nodes s' = all_shard_nodes s \<and> LocalGroupId s' = LocalGroupId s \<and>
         pg_database s' = pg_database s \<and>
         (\<exists>metadata. issued s' = issued s @ metadata \<and>
                     (\<forall>e \<in> set metadata. \<exists>command. e = MetadataWorkersCommand command))"
  using assms
  by (auto simp: InsertDatabaseShardAssignment_def InsertDatabaseShardAssignmentLocally_def
        InsertDatabaseShardAssignmentOnOtherNodes_def SendCommandToWorkersWithMetadata_def
        Let_def split: if_splits sum.splits)

lemma delete_result:
  assumes "DeleteDatabaseShardByDatabaseId d databaseOid s = Inr s'"
  shows "database_shard s' = delete_first_tuple databaseOid (database_shard s) \<and>
         all_shard_nodes s' = all_shard_nodes s \<and> LocalGroupId s' = LocalGroupId s \<and>
         pg_database s' = pg_database s \<and>
         (\<exists>metadata. issued s' = issued s @ metadata \<and>
                     (\<forall>e \<in> set metadata. \<exists>command. e = MetadataWorkersCommand command))"
  using assms
  by (auto simp: DeleteDatabaseShardByDatabaseId_def DeleteDatabaseShardByDatabaseIdLocally_def
        DeleteDatabaseShardByDatabaseIdOnOtherNodes_def SendCommandToWorkersWithMetadata_def
        Let_def split: if_splits sum.splits)

lemma assign_steps:
  assumes "AssignDatabaseToShard d databaseOid s = Inr s'"
  shows "\<exists>s1 s2. InsertDatabaseShardAssignment d databaseOid (assign_policy s databaseOid) s = Inr s1 \<and>
           AllowConnectionsOnlyOnNodeGroup d databaseOid (assign_policy s databaseOid) s1 = Inr s2 \<and>
           s' = s2\<lparr>ReconfigurePgBouncersOnCommit := True\<rparr>"
  using assms
  by (auto simp: AssignDatabaseToShard_def assign_policy_def TargetWorkerSetNodeList_def
        GetLocalGroupId_def Let_def split: sum.splits if_splits)

subsection \<open>The statements of the sweep\<close>

lemma grant_is_not_revoke: "grant_connect d dbname \<noteq> revoke_connect d dbname'"
  by (simp add: grant_connect_def revoke_connect_def)

lemma command_on_node_eq:
  assumes "command_on_node s a c = command_on_node s b c'"
  shows "c = c' \<and>
         (groupId a = LocalGroupId s \<and> groupId b = LocalGroupId s \<or>
          workerName a = workerName b \<and> workerPort a = workerPort b)"
  using assms by (simp add: command_on_node_def split: if_splits)

lemma same_target_same_group:
  assumes uniq: "node_addresses_unique nodes"
      and a: "a \<in> set nodes" and b: "b \<in> set nodes"
      and same: "command_on_node s a c = command_on_node s b c'"
  shows "c = c' \<and> groupId a = groupId b"
proof -
  from command_on_node_eq [OF same] have c: "c = c'" and
    target: "groupId a = LocalGroupId s \<and> groupId b = LocalGroupId s \<or>
             workerName a = workerName b \<and> workerPort a = workerPort b"
    by simp_all
  from target have "groupId a = groupId b"
  proof
    assume "groupId a = LocalGroupId s \<and> groupId b = LocalGroupId s"
    then show ?thesis by simp
  next
    assume "workerName a = workerName b \<and> workerPort a = workerPort b"
    with uniq a b show ?thesis unfolding node_addresses_unique_def by blast
  qed
  with c show ?thesis by simp
qed

lemma grant_in_sweep:
  assumes uniq: "node_addresses_unique (all_shard_nodes s)"
      and node: "node \<in> set (all_shard_nodes s)"
  shows "(command_on_node s node (grant_connect d dbname) \<in> set (connect_sweep d dbname assigned s))
           = (groupId node = assigned)"
proof
  assume "groupId node = assigned"
  then have "command_on_node s node (grant_connect d dbname)
               = command_on_node s node (if groupId node = assigned then grant_connect d dbname
                                         else revoke_connect d dbname)"
    by simp
  from this node show "command_on_node s node (grant_connect d dbname) \<in> set (connect_sweep d dbname assigned s)"
    unfolding connect_sweep_def set_map by (rule image_eqI)
next
  assume "command_on_node s node (grant_connect d dbname) \<in> set (connect_sweep d dbname assigned s)"
  then obtain other where other: "other \<in> set (all_shard_nodes s)" and
    same: "command_on_node s node (grant_connect d dbname) =
           command_on_node s other (if groupId other = assigned then grant_connect d dbname
                                    else revoke_connect d dbname)"
    unfolding connect_sweep_def set_map by blast
  from same_target_same_group [OF uniq node other same]
  have cmd: "grant_connect d dbname = (if groupId other = assigned then grant_connect d dbname
                                    else revoke_connect d dbname)"
    and grp: "groupId node = groupId other" by simp_all
  from cmd have "groupId other = assigned"
    using grant_is_not_revoke [of d dbname dbname] by (cases "groupId other = assigned") simp_all
  with grp show "groupId node = assigned" by simp
qed

lemma revoke_in_sweep:
  assumes uniq: "node_addresses_unique (all_shard_nodes s)"
      and node: "node \<in> set (all_shard_nodes s)"
  shows "(command_on_node s node (revoke_connect d dbname) \<in> set (connect_sweep d dbname assigned s))
           = (groupId node \<noteq> assigned)"
proof
  assume "groupId node \<noteq> assigned"
  then have "command_on_node s node (revoke_connect d dbname)
               = command_on_node s node (if groupId node = assigned then grant_connect d dbname
                                         else revoke_connect d dbname)"
    by simp
  from this node show "command_on_node s node (revoke_connect d dbname) \<in> set (connect_sweep d dbname assigned s)"
    unfolding connect_sweep_def set_map by (rule image_eqI)
next
  assume "command_on_node s node (revoke_connect d dbname) \<in> set (connect_sweep d dbname assigned s)"
  then obtain other where other: "other \<in> set (all_shard_nodes s)" and
    same: "command_on_node s node (revoke_connect d dbname) =
           command_on_node s other (if groupId other = assigned then grant_connect d dbname
                                    else revoke_connect d dbname)"
    unfolding connect_sweep_def set_map by blast
  from same_target_same_group [OF uniq node other same]
  have cmd: "revoke_connect d dbname = (if groupId other = assigned then grant_connect d dbname
                                    else revoke_connect d dbname)"
    and grp: "groupId node = groupId other" by simp_all
  from cmd have "groupId other \<noteq> assigned"
    using grant_is_not_revoke [of d dbname dbname] by (cases "groupId other = assigned") auto
  with grp show "groupId node \<noteq> assigned" by simp
qed

subsection \<open>The placement policy\<close>

text \<open>
  C5. The group that \<open>AssignDatabaseToShard\<close> chooses is the group of the placement
  policy: the local group when the node list is empty, otherwise the group of the node
  at index \<open>databaseOid mod\<close> the length of the list. It is the group of the row that
  is inserted and the group that is handed to the sweep of the connect privilege.
\<close>

theorem C5_assignment_policy:
  assumes "AssignDatabaseToShard d databaseOid s = Inr s'"
  shows "(\<exists>s1 s2. InsertDatabaseShardAssignment d databaseOid (assign_policy s databaseOid) s = Inr s1 \<and>
            AllowConnectionsOnlyOnNodeGroup d databaseOid (assign_policy s databaseOid) s1 = Inr s2 \<and>
            s' = s2\<lparr>ReconfigurePgBouncersOnCommit := True\<rparr>) \<and>
         database_shard s' = database_shard s @
           [\<lparr>database_id = databaseOid, node_group_id = assign_policy s databaseOid,
             is_available = True\<rparr>]"
proof -
  from assign_steps [OF assms] obtain s1 s2 where
    ins: "InsertDatabaseShardAssignment d databaseOid (assign_policy s databaseOid) s = Inr s1" and
    sweep: "AllowConnectionsOnlyOnNodeGroup d databaseOid (assign_policy s databaseOid) s1 = Inr s2" and
    fin: "s' = s2\<lparr>ReconfigurePgBouncersOnCommit := True\<rparr>"
    by blast
  from insert_result [OF ins] sweep_keeps_registry [OF sweep] fin
  have "database_shard s' = database_shard s @
           [\<lparr>database_id = databaseOid, node_group_id = assign_policy s databaseOid,
             is_available = True\<rparr>]"
    by simp
  with ins sweep fin show ?thesis by blast
qed

lemmas assign_eval = AssignDatabaseToShard_def TargetWorkerSetNodeList_def GetLocalGroupId_def
  InsertDatabaseShardAssignment_def InsertDatabaseShardAssignmentLocally_def
  AllowConnectionsOnlyOnNodeGroup_def get_database_name_def ExecuteQueryViaSPI_def
  SendCommandToWorker_def example_backend_def example_deparser_def three_workers_def
  three_workers_backend_def worker_a_def worker_b_def worker_c_def

text \<open>
  The assignment of \<open>shopdb\<close> (Oid 16384, and 16384 mod 3 = 1) with three workers and
  with none.
\<close>

lemma three_workers_assignment:
  "AssignDatabaseToShard example_deparser 16384 three_workers_backend
     = Inr (three_workers_backend
         \<lparr>database_shard := [\<lparr>database_id = 16384, node_group_id = 20, is_available = True\<rparr>],
          ReconfigurePgBouncersOnCommit := True,
          issued := [WorkerCommand ''worker-a'' 5432 ''REVOKE CONNECT ON DATABASE shopdb FROM public'',
                     WorkerCommand ''worker-b'' 5432 ''GRANT CONNECT ON DATABASE shopdb TO public'',
                     WorkerCommand ''worker-c'' 5432 ''REVOKE CONNECT ON DATABASE shopdb FROM public'']\<rparr>)"
  by (simp add: assign_eval)

lemma no_workers_assignment:
  "AssignDatabaseToShard example_deparser 16384 example_backend
     = Inr (example_backend
         \<lparr>database_shard := [\<lparr>database_id = 16384, node_group_id = 0, is_available = True\<rparr>],
          ReconfigurePgBouncersOnCommit := True\<rparr>)"
  by (simp add: assign_eval)

lemma three_workers_policy: "assign_policy three_workers_backend 16384 = 20"
  by (simp add: assign_policy_def three_workers_backend_def three_workers_def worker_b_def)

lemma no_workers_policy: "assign_policy example_backend 16384 = 0"
  by (simp add: assign_policy_def example_backend_def)

theorem C5_assignment_policy_witness:
  "assign_policy three_workers_backend 16384 = 20 \<and>
   map_sum id database_shard (AssignDatabaseToShard example_deparser 16384 three_workers_backend)
     = Inr (database_shard three_workers_backend @
            [\<lparr>database_id = 16384, node_group_id = 20, is_available = True\<rparr>]) \<and>
   assign_policy example_backend 16384 = 0 \<and>
   map_sum id database_shard (AssignDatabaseToShard example_deparser 16384 example_backend)
     = Inr (database_shard example_backend @
            [\<lparr>database_id = 16384, node_group_id = 0, is_available = True\<rparr>])"
proof -
  from C5_assignment_policy [OF three_workers_assignment]
  have a: "map_sum id database_shard
             (AssignDatabaseToShard example_deparser 16384 three_workers_backend)
     = Inr (database_shard three_workers_backend @
            [\<lparr>database_id = 16384, node_group_id = 20, is_available = True\<rparr>])"
    unfolding three_workers_policy three_workers_assignment by simp
  from C5_assignment_policy [OF no_workers_assignment]
  have b: "map_sum id database_shard (AssignDatabaseToShard example_deparser 16384 example_backend)
     = Inr (database_shard example_backend @
            [\<lparr>database_id = 16384, node_group_id = 0, is_available = True\<rparr>])"
    unfolding no_workers_policy no_workers_assignment by simp
  from a b three_workers_policy no_workers_policy show ?thesis by blast
qed

subsection \<open>The sweep of the connect privilege\<close>

lemma sweep_frame:
  "all_shard_nodes s1 = all_shard_nodes s \<Longrightarrow> LocalGroupId s1 = LocalGroupId s \<Longrightarrow>
   connect_sweep d dbname assigned s1 = connect_sweep d dbname assigned s"
  by (simp add: connect_sweep_def command_on_node_def)

lemma get_database_name_frame:
  "pg_database s1 = pg_database s \<Longrightarrow>
   get_database_name s1 databaseOid = get_database_name s databaseOid"
  by (simp add: get_database_name_def)

lemma sweep_iff:
  assumes uniq: "node_addresses_unique (all_shard_nodes s)"
  shows "\<forall>node \<in> set (all_shard_nodes s).
            (command_on_node s node (grant_connect d dbname)
               \<in> set (connect_sweep d dbname assigned s)) = (groupId node = assigned) \<and>
            (command_on_node s node (revoke_connect d dbname)
               \<in> set (connect_sweep d dbname assigned s)) = (groupId node \<noteq> assigned)"
proof (intro ballI conjI)
  fix node
  assume node: "node \<in> set (all_shard_nodes s)"
  show "(command_on_node s node (grant_connect d dbname)
               \<in> set (connect_sweep d dbname assigned s)) = (groupId node = assigned)"
    by (rule grant_in_sweep [OF uniq node])
  show "(command_on_node s node (revoke_connect d dbname)
               \<in> set (connect_sweep d dbname assigned s)) = (groupId node \<noteq> assigned)"
    by (rule revoke_in_sweep [OF uniq node])
qed

lemma assign_issued:
  assumes completed: "AssignDatabaseToShard d databaseOid s = Inr s'"
      and name: "get_database_name s databaseOid = Some dbname"
  shows "\<exists>metadata.
            issued s' = issued s @ metadata @ connect_sweep d dbname (assign_policy s databaseOid) s \<and>
            (\<forall>e \<in> set metadata. \<exists>command. e = MetadataWorkersCommand command)"
proof -
  let ?G = "assign_policy s databaseOid"
  from assign_steps [OF completed] obtain s1 s2 where
    ins: "InsertDatabaseShardAssignment d databaseOid ?G s = Inr s1" and
    sweep: "AllowConnectionsOnlyOnNodeGroup d databaseOid ?G s1 = Inr s2" and
    fin: "s' = s2\<lparr>ReconfigurePgBouncersOnCommit := True\<rparr>"
    by blast
  from insert_result [OF ins] have
    nodes: "all_shard_nodes s1 = all_shard_nodes s" and loc: "LocalGroupId s1 = LocalGroupId s" and
    cat: "pg_database s1 = pg_database s" and
    ex: "\<exists>metadata. issued s1 = issued s @ metadata \<and>
                     (\<forall>e \<in> set metadata. \<exists>command. e = MetadataWorkersCommand command)"
    by simp_all
  from ex obtain metadata where
    iss1: "issued s1 = issued s @ metadata" and
    meta: "\<forall>e \<in> set metadata. \<exists>command. e = MetadataWorkersCommand command"
    by blast
  from name get_database_name_frame [OF cat, of databaseOid]
  have name1: "get_database_name s1 databaseOid = Some dbname"
    by simp
  have s2: "s2 = s1\<lparr>issued := issued s1 @ connect_sweep d dbname ?G s1\<rparr>"
    by (rule sweep_result [OF sweep name1])
  have "issued s' = issued s2" by (simp add: fin)
  also have "\<dots> = issued s1 @ connect_sweep d dbname ?G s1" by (subst s2) simp
  also have "\<dots> = issued s @ metadata @ connect_sweep d dbname ?G s"
    by (simp add: iss1 sweep_frame [OF nodes loc])
  finally have "issued s' = issued s @ metadata @ connect_sweep d dbname ?G s" .
  with meta show ?thesis by (intro exI [of _ metadata] conjI)
qed

text \<open>
  Every statement of the sweep goes to a node of the list, and nothing is run through
  SPI when no node of the list is in the local group.
\<close>

lemma sweep_only_listed_nodes:
  "\<forall>e \<in> set (connect_sweep d dbname assigned s).
     \<exists>node \<in> set (all_shard_nodes s).
       e = command_on_node s node (grant_connect d dbname) \<or>
       e = command_on_node s node (revoke_connect d dbname)"
  unfolding connect_sweep_def set_map by fastforce

lemma sweep_nothing_local:
  assumes "LocalGroupId s \<notin> set (map groupId (all_shard_nodes s))"
  shows "SPIQuery command \<notin> set (connect_sweep d dbname assigned s)"
proof
  assume "SPIQuery command \<in> set (connect_sweep d dbname assigned s)"
  with sweep_only_listed_nodes [of d dbname assigned s] obtain node where
    node: "node \<in> set (all_shard_nodes s)" and
    ev: "SPIQuery command = command_on_node s node (grant_connect d dbname) \<or>
         SPIQuery command = command_on_node s node (revoke_connect d dbname)"
    by blast
  from ev have "groupId node = LocalGroupId s"
    by (auto simp: command_on_node_def split: if_splits)
  with node assms show False by force
qed

text \<open>
  C6. Every node of the cluster is meant to be sent a statement: GRANT CONNECT when its
  group is the assigned group, REVOKE CONNECT otherwise. The sweep covers the node
  list only. In the backend with three workers the local node (group 0) is not in the
  list; \<open>shopdb\<close> is assigned to group 20, the three workers are sent their
  statements, and no REVOKE is run on the local node, whose group is not 20.
\<close>

theorem C6_local_node_not_swept:
  "LocalGroupId three_workers_backend = 0 \<and>
   assign_policy three_workers_backend 16384 = 20 \<and>
   LocalGroupId three_workers_backend
     \<notin> set (map groupId (all_shard_nodes three_workers_backend)) \<and>
   map_sum id issued (AssignDatabaseToShard example_deparser 16384 three_workers_backend)
     = Inr [WorkerCommand ''worker-a'' 5432 ''REVOKE CONNECT ON DATABASE shopdb FROM public'',
            WorkerCommand ''worker-b'' 5432 ''GRANT CONNECT ON DATABASE shopdb TO public'',
            WorkerCommand ''worker-c'' 5432 ''REVOKE CONNECT ON DATABASE shopdb FROM public''] \<and>
   SPIQuery (revoke_connect example_deparser ''shopdb'')
     \<notin> set [WorkerCommand ''worker-a'' 5432 ''REVOKE CONNECT ON DATABASE shopdb FROM public'',
              WorkerCommand ''worker-b'' 5432 ''GRANT CONNECT ON DATABASE shopdb TO public'',
              WorkerCommand ''worker-c'' 5432 ''REVOKE CONNECT ON DATABASE shopdb FROM public'']"
proof -
  have loc: "LocalGroupId three_workers_backend = 0"
    by (simp add: three_workers_backend_def example_backend_def)
  have unlisted: "LocalGroupId three_workers_backend
                    \<notin> set (map groupId (all_shard_nodes three_workers_backend))"
    by (simp add: three_workers_backend_def example_backend_def three_workers_def
          worker_a_def worker_b_def worker_c_def)
  have iss: "map_sum id issued (AssignDatabaseToShard example_deparser 16384 three_workers_backend)
     = Inr [WorkerCommand ''worker-a'' 5432 ''REVOKE CONNECT ON DATABASE shopdb FROM public'',
            WorkerCommand ''worker-b'' 5432 ''GRANT CONNECT ON DATABASE shopdb TO public'',
            WorkerCommand ''worker-c'' 5432 ''REVOKE CONNECT ON DATABASE shopdb FROM public'']"
    unfolding three_workers_assignment by simp
  have none: "SPIQuery (revoke_connect example_deparser ''shopdb'')
     \<notin> set [WorkerCommand ''worker-a'' 5432 ''REVOKE CONNECT ON DATABASE shopdb FROM public'',
              WorkerCommand ''worker-b'' 5432 ''GRANT CONNECT ON DATABASE shopdb TO public'',
              WorkerCommand ''worker-c'' 5432 ''REVOKE CONNECT ON DATABASE shopdb FROM public'']"
    by simp
  from loc three_workers_policy unlisted iss none show ?thesis by (intro conjI)
qed

text \<open>
  C6, as the code has it: after \<open>AssignDatabaseToShard\<close> has completed with the
  assigned group \<open>G\<close>, the commands it issued are the mirrored insert (when metadata
  sync is on) followed by the sweep: one statement for every node of the node list, in
  list order. For every node of the list (with one entry per node address) a GRANT
  CONNECT reaches the node exactly when its group is \<open>G\<close>, and a REVOKE CONNECT
  exactly when it is not. Every statement of the sweep goes to a node of the list: a
  node that is not in the list is sent nothing, and nothing is run on the local node
  when no node of the list is in the local group.
\<close>

theorem C6_connect_only_on_assigned_group:
  assumes completed: "AssignDatabaseToShard d databaseOid s = Inr s'"
      and name: "get_database_name s databaseOid = Some dbname"
      and uniq: "node_addresses_unique (all_shard_nodes s)"
  shows "(\<exists>metadata.
            issued s' = issued s @ metadata @ connect_sweep d dbname (assign_policy s databaseOid) s \<and>
            (\<forall>e \<in> set metadata. \<exists>command. e = MetadataWorkersCommand command)) \<and>
         (\<forall>node \<in> set (all_shard_nodes s).
            (command_on_node s node (grant_connect d dbname)
               \<in> set (connect_sweep d dbname (assign_policy s databaseOid) s))
              = (groupId node = assign_policy s databaseOid) \<and>
            (command_on_node s node (revoke_connect d dbname)
               \<in> set (connect_sweep d dbname (assign_policy s databaseOid) s))
              = (groupId node \<noteq> assign_policy s databaseOid)) \<and>
         (\<forall>e \<in> set (connect_sweep d dbname (assign_policy s databaseOid) s).
            \<exists>node \<in> set (all_shard_nodes s).
              e = command_on_node s node (grant_connect d dbname) \<or>
              e = command_on_node s node (revoke_connect d dbname)) \<and>
         (LocalGroupId s \<notin> set (map groupId (all_shard_nodes s)) \<longrightarrow>
            (\<forall>command. SPIQuery command
               \<notin> set (connect_sweep d dbname (assign_policy s databaseOid) s)))"
proof (intro conjI impI allI)
  show "\<exists>metadata.
            issued s' = issued s @ metadata @ connect_sweep d dbname (assign_policy s databaseOid) s \<and>
            (\<forall>e \<in> set metadata. \<exists>command. e = MetadataWorkersCommand command)"
    by (rule assign_issued [OF completed name])
next
  show "\<forall>node \<in> set (all_shard_nodes s).
            (command_on_node s node (grant_connect d dbname)
               \<in> set (connect_sweep d dbname (assign_policy s databaseOid) s))
              = (groupId node = assign_policy s databaseOid) \<and>
            (command_on_node s node (revoke_connect d dbname)
               \<in> set (connect_sweep d dbname (assign_policy s databaseOid) s))
              = (groupId node \<noteq> assign_policy s databaseOid)"
    by (rule sweep_iff [OF uniq])
next
  show "\<forall>e \<in> set (connect_sweep d dbname (assign_policy s databaseOid) s).
            \<exists>node \<in> set (all_shard_nodes s).
              e = command_on_node s node (grant_connect d dbname) \<or>
              e = command_on_node s node (revoke_connect d dbname)"
    by (rule sweep_only_listed_nodes)
next
  fix command
  assume "LocalGroupId s \<notin> set (map groupId (all_shard_nodes s))"
  then show "SPIQuery command \<notin> set (connect_sweep d dbname (assign_policy s databaseOid) s)"
    by (rule sweep_nothing_local)
qed

lemma three_workers_unique: "node_addresses_unique (all_shard_nodes three_workers_backend)"
  by (simp add: node_addresses_unique_def three_workers_backend_def three_workers_def
        worker_a_def worker_b_def worker_c_def)

lemma shopdb_name: "get_database_name three_workers_backend 16384 = Some ''shopdb''"
  by (simp add: get_database_name_def three_workers_backend_def example_backend_def)

theorem C6_connect_only_on_assigned_group_witness:
  "get_database_name three_workers_backend 16384 = Some ''shopdb'' \<and>
   node_addresses_unique (all_shard_nodes three_workers_backend) \<and>
   map_sum id issued (AssignDatabaseToShard example_deparser 16384 three_workers_backend)
     = Inr [WorkerCommand ''worker-a'' 5432 ''REVOKE CONNECT ON DATABASE shopdb FROM public'',
            WorkerCommand ''worker-b'' 5432 ''GRANT CONNECT ON DATABASE shopdb TO public'',
            WorkerCommand ''worker-c'' 5432 ''REVOKE CONNECT ON DATABASE shopdb FROM public''] \<and>
   command_on_node three_workers_backend worker_b (grant_connect example_deparser ''shopdb'')
     \<in> set (connect_sweep example_deparser ''shopdb'' 20 three_workers_backend) \<and>
   command_on_node three_workers_backend worker_b (revoke_connect example_deparser ''shopdb'')
     \<notin> set (connect_sweep example_deparser ''shopdb'' 20 three_workers_backend) \<and>
   command_on_node three_workers_backend worker_a (grant_connect example_deparser ''shopdb'')
     \<notin> set (connect_sweep example_deparser ''shopdb'' 20 three_workers_backend) \<and>
   command_on_node three_workers_backend worker_a (revoke_connect example_deparser ''shopdb'')
     \<in> set (connect_sweep example_deparser ''shopdb'' 20 three_workers_backend) \<and>
   LocalGroupId three_workers_backend
     \<notin> set (map groupId (all_shard_nodes three_workers_backend)) \<and>
   SPIQuery (revoke_connect example_deparser ''shopdb'')
     \<notin> set (connect_sweep example_deparser ''shopdb'' 20 three_workers_backend)"
proof -
  note fact = C6_connect_only_on_assigned_group
                [OF three_workers_assignment shopdb_name three_workers_unique,
                 unfolded three_workers_policy]
  have a: "worker_a \<in> set (all_shard_nodes three_workers_backend)"
   and b: "worker_b \<in> set (all_shard_nodes three_workers_backend)"
    by (simp_all add: three_workers_backend_def three_workers_def)
  have ga: "groupId worker_a \<noteq> 20" and gb: "groupId worker_b = 20"
    by (simp_all add: worker_a_def worker_b_def)
  from bspec [OF conjunct1 [OF conjunct2 [OF fact]] a] ga
  have wa: "command_on_node three_workers_backend worker_a (grant_connect example_deparser ''shopdb'')
              \<notin> set (connect_sweep example_deparser ''shopdb'' 20 three_workers_backend) \<and>
            command_on_node three_workers_backend worker_a (revoke_connect example_deparser ''shopdb'')
              \<in> set (connect_sweep example_deparser ''shopdb'' 20 three_workers_backend)"
    by simp
  from bspec [OF conjunct1 [OF conjunct2 [OF fact]] b] gb
  have wb: "command_on_node three_workers_backend worker_b (grant_connect example_deparser ''shopdb'')
              \<in> set (connect_sweep example_deparser ''shopdb'' 20 three_workers_backend) \<and>
            command_on_node three_workers_backend worker_b (revoke_connect example_deparser ''shopdb'')
              \<notin> set (connect_sweep example_deparser ''shopdb'' 20 three_workers_backend)"
    by simp
  have iss: "map_sum id issued (AssignDatabaseToShard example_deparser 16384 three_workers_backend)
     = Inr [WorkerCommand ''worker-a'' 5432 ''REVOKE CONNECT ON DATABASE shopdb FROM public'',
            WorkerCommand ''worker-b'' 5432 ''GRANT CONNECT ON DATABASE shopdb TO public'',
            WorkerCommand ''worker-c'' 5432 ''REVOKE CONNECT ON DATABASE shopdb FROM public'']"
    unfolding three_workers_assignment by simp
  have unlisted: "LocalGroupId three_workers_backend
                    \<notin> set (map groupId (all_shard_nodes three_workers_backend))"
    by (simp add: three_workers_backend_def example_backend_def three_workers_def
          worker_a_def worker_b_def worker_c_def)
  from conjunct2 [OF conjunct2 [OF conjunct2 [OF fact]]] unlisted
  have nospi: "SPIQuery (revoke_connect example_deparser ''shopdb'')
                 \<notin> set (connect_sweep example_deparser ''shopdb'' 20 three_workers_backend)"
    by simp
  show ?thesis using shopdb_name three_workers_unique iss wa wb unlisted nospi
    by (elim conjE) (intro conjI; assumption)
qed

text \<open>
  C7. With no node in the list the row goes to the local group and no REVOKE is sent;
  but the sweep runs over the empty list, so no GRANT is executed on the coordinator
  either. In the example backend the assignment of \<open>shopdb\<close> inserts the row of the
  local group and issues no command at all.
\<close>

theorem C7_no_grant_without_nodes:
  "all_shard_nodes example_backend = [] \<and>
   issued example_backend = [] \<and>
   map_sum id database_shard (AssignDatabaseToShard example_deparser 16384 example_backend)
     = Inr [\<lparr>database_id = 16384, node_group_id = LocalGroupId example_backend, is_available = True\<rparr>] \<and>
   map_sum id issued (AssignDatabaseToShard example_deparser 16384 example_backend) = Inr []"
  unfolding no_workers_assignment by (simp add: example_backend_def)

text \<open>
  C7, as the code has it: with an empty node list a completed assignment inserts one
  row, of the local group and available, and issues nothing but the mirrored insert of
  metadata sync: no statement is run through SPI and none is sent to a worker.
\<close>

theorem C7_assignment_without_nodes:
  assumes completed: "AssignDatabaseToShard d databaseOid s = Inr s'"
      and none: "all_shard_nodes s = []"
  shows "database_shard s' = database_shard s @
           [\<lparr>database_id = databaseOid, node_group_id = LocalGroupId s, is_available = True\<rparr>] \<and>
         (\<exists>metadata. issued s' = issued s @ metadata \<and>
            (\<forall>e \<in> set metadata. \<exists>command. e = MetadataWorkersCommand command))"
proof -
  from none have pol: "assign_policy s databaseOid = LocalGroupId s"
    by (simp add: assign_policy_def)
  from assign_steps [OF completed] obtain s1 s2 where
    ins: "InsertDatabaseShardAssignment d databaseOid (LocalGroupId s) s = Inr s1" and
    sweep: "AllowConnectionsOnlyOnNodeGroup d databaseOid (LocalGroupId s) s1 = Inr s2" and
    fin: "s' = s2\<lparr>ReconfigurePgBouncersOnCommit := True\<rparr>"
    unfolding pol by blast
  from insert_result [OF ins] have
    reg: "database_shard s1 = database_shard s @
           [\<lparr>database_id = databaseOid, node_group_id = LocalGroupId s, is_available = True\<rparr>]" and
    nodes: "all_shard_nodes s1 = all_shard_nodes s" and
    ex: "\<exists>metadata. issued s1 = issued s @ metadata \<and>
                     (\<forall>e \<in> set metadata. \<exists>command. e = MetadataWorkersCommand command)"
    by simp_all
  from nodes none have "all_shard_nodes s1 = []" by simp
  from sweep_without_nodes [OF sweep this] have "s2 = s1" .
  with fin reg ex show ?thesis by simp
qed

theorem C7_assignment_without_nodes_witness:
  "all_shard_nodes example_backend = [] \<and>
   map_sum id database_shard (AssignDatabaseToShard example_deparser 16384 example_backend)
     = Inr (database_shard example_backend @
            [\<lparr>database_id = 16384, node_group_id = LocalGroupId example_backend, is_available = True\<rparr>])"
proof -
  have none: "all_shard_nodes example_backend = []" by (simp add: example_backend_def)
  from C7_assignment_without_nodes [OF no_workers_assignment none]
  have "map_sum id database_shard (AssignDatabaseToShard example_deparser 16384 example_backend)
     = Inr (database_shard example_backend @
            [\<lparr>database_id = 16384, node_group_id = LocalGroupId example_backend, is_available = True\<rparr>])"
    unfolding no_workers_assignment by simp
  with none show ?thesis by (rule conjI)
qed

subsection \<open>The move of an assignment\<close>


lemma set_delete_first_tuple: "set (delete_first_tuple databaseOid rows) \<subseteq> set rows"
  by (induction rows) auto

lemma update_steps:
  assumes "UpdateDatabaseShard d databaseOid targetNodeGroupId s = Inr s'"
  shows "\<exists>s1 s2 s3. DeleteDatabaseShardByDatabaseId d databaseOid s = Inr s1 \<and>
           InsertDatabaseShardAssignment d databaseOid targetNodeGroupId s1 = Inr s2 \<and>
           AllowConnectionsOnlyOnNodeGroup d databaseOid targetNodeGroupId s2 = Inr s3 \<and>
           s' = s3\<lparr>ReconfigurePgBouncersOnCommit := True\<rparr>"
  using assms
  by (auto simp: UpdateDatabaseShard_def split: sum.splits)


lemma assigned_backend_move:
  "UpdateDatabaseShard example_deparser 16384 30 assigned_backend
     = Inr (assigned_backend
         \<lparr>database_shard := [\<lparr>database_id = 16384, node_group_id = 30, is_available = True\<rparr>],
          ReconfigurePgBouncersOnCommit := True,
          issued := [WorkerCommand ''worker-a'' 5432 ''REVOKE CONNECT ON DATABASE shopdb FROM public'',
                     WorkerCommand ''worker-b'' 5432 ''REVOKE CONNECT ON DATABASE shopdb FROM public'',
                     WorkerCommand ''worker-c'' 5432 ''GRANT CONNECT ON DATABASE shopdb TO public'']\<rparr>)"
  by (simp add: UpdateDatabaseShard_def DeleteDatabaseShardByDatabaseId_def
        DeleteDatabaseShardByDatabaseIdLocally_def assigned_backend_def assign_eval)


subsection \<open>The delegation to the control database\<close>

text \<open>
  C9. The delegator is meant to act whenever per-database sharding is enabled and the
  session is in a shard database. The code has one more guard,
  \<open>EnableCreateDatabasePropagation\<close>: with sharding on and that setting off, in a
  session connected to \<open>shopdb\<close> while the control database is \<open>citus\<close>, a
  top-level \<open>CREATE DATABASE\<close> is not sent to the control database and
  \<open>runPreviousUtilityHook\<close> stays true, so the statement runs locally.
\<close>

theorem C9_not_delegated_when_propagation_is_off:
  "EnableDatabaseSharding
     (example_backend\<lparr>EnableCreateDatabasePropagation := \<lparr>variable = False, stack = []\<rparr>\<rparr>) \<and>
   get_database_name
     (example_backend\<lparr>EnableCreateDatabasePropagation := \<lparr>variable = False, stack = []\<rparr>\<rparr>)
     (MyDatabaseId
        (example_backend\<lparr>EnableCreateDatabasePropagation := \<lparr>variable = False, stack = []\<rparr>\<rparr>))
     = Some ''shopdb'' \<and>
   CitusMainDatabase
     (example_backend\<lparr>EnableCreateDatabasePropagation := \<lparr>variable = False, stack = []\<rparr>\<rparr>)
     = ''citus'' \<and>
   PreProcessUtilityInDatabaseShard example_deparser (CreatedbStmt ''appdb'')
     PROCESS_UTILITY_TOPLEVEL True
     (example_backend\<lparr>EnableCreateDatabasePropagation := \<lparr>variable = False, stack = []\<rparr>\<rparr>)
     = (True, example_backend\<lparr>EnableCreateDatabasePropagation := \<lparr>variable = False, stack = []\<rparr>\<rparr>)"
  by (simp add: PreProcessUtilityInDatabaseShard_def get_database_name_def example_backend_def)

lemma ExecuteCommandInControlDatabase_issued:
  "ExecuteCommandInControlDatabase command s = s\<lparr>issued := issued s @ delegated s command\<rparr>"
  by (simp add: ExecuteCommandInControlDatabase_def GetNodeUserDatabaseConnection_def
        ExecuteCriticalRemoteCommand_def CloseConnection_def delegated_def control_connection_def
        Let_def)

text \<open>
  C9, as the code has it: \<open>PreProcessUtilityInDatabaseShard\<close> acts exactly when
  sharding is enabled, the statement is top-level, create-database propagation is
  enabled, and the statement is a create or a drop of a database. Then the deparsed
  statement is executed on a forced-new connection to the control database, after the
  statement that tags the connection, the connection is closed, and
  \<open>runPreviousUtilityHook\<close> is set to false. In every other case nothing is issued and
  \<open>runPreviousUtilityHook\<close> is left as it was. The database of the session has no part
  in it: the function does not read \<open>MyDatabaseId\<close>.
\<close>

theorem C9_delegation:
  "PreProcessUtilityInDatabaseShard d parseTree context runPreviousUtilityHook s =
     (if EnableDatabaseSharding s \<and> context = PROCESS_UTILITY_TOPLEVEL \<and>
         variable (EnableCreateDatabasePropagation s)
      then (case parseTree of
              CreatedbStmt dbname \<Rightarrow>
                (False, s\<lparr>issued := issued s @ delegated s (DeparseCreatedbStmt d parseTree)\<rparr>)
            | DropdbStmt dbname missing_ok \<Rightarrow>
                (False, s\<lparr>issued := issued s @ delegated s (DeparseDropdbStmt d parseTree)\<rparr>)
            | OtherStmt tag \<Rightarrow> (runPreviousUtilityHook, s))
      else (runPreviousUtilityHook, s))"
  by (simp add: PreProcessUtilityInDatabaseShard_def ExecuteCommandInControlDatabase_issued
        split: Node.splits)

theorem C9_delegation_witness:
  "PreProcessUtilityInDatabaseShard example_deparser (DropdbStmt ''appdb'' False)
     PROCESS_UTILITY_TOPLEVEL True example_backend
     = (False, example_backend\<lparr>issued :=
          [ConnectionOpened \<lparr>connectionFlags = FORCE_NEW_CONNECTION, hostname = ''localhost'',
                              port = 5432, user = None, database = ''citus''\<rparr>,
           CriticalRemoteCommand \<lparr>connectionFlags = FORCE_NEW_CONNECTION, hostname = ''localhost'',
                              port = 5432, user = None, database = ''citus''\<rparr> set_application_name,
           CriticalRemoteCommand \<lparr>connectionFlags = FORCE_NEW_CONNECTION, hostname = ''localhost'',
                              port = 5432, user = None, database = ''citus''\<rparr> ''DROP DATABASE appdb'',
           ConnectionClosed \<lparr>connectionFlags = FORCE_NEW_CONNECTION, hostname = ''localhost'',
                              port = 5432, user = None, database = ''citus''\<rparr>]\<rparr>) \<and>
   PreProcessUtilityInDatabaseShard example_deparser (DropdbStmt ''appdb'' False)
     PROCESS_UTILITY_QUERY True example_backend = (True, example_backend)"
  using C9_delegation [of example_deparser "DropdbStmt ''appdb'' False" PROCESS_UTILITY_TOPLEVEL
          True example_backend]
        C9_delegation [of example_deparser "DropdbStmt ''appdb'' False" PROCESS_UTILITY_QUERY
          True example_backend]
  by (simp add: example_backend_def example_deparser_def delegated_def control_connection_def)

subsection \<open>Availability of the rows\<close>

lemma only_available_rows_added_refl: "only_available_rows_added s s"
  by (simp add: only_available_rows_added_def)

lemma only_available_rows_added_trans:
  "only_available_rows_added s s1 \<Longrightarrow> only_available_rows_added s1 s2 \<Longrightarrow>
   only_available_rows_added s s2"
  unfolding only_available_rows_added_def by blast

lemma only_available_rows_added_frame:
  "database_shard s2 = database_shard s1 \<Longrightarrow> only_available_rows_added s s1 \<Longrightarrow>
   only_available_rows_added s s2"
  by (simp add: only_available_rows_added_def)

lemma insert_locally_available:
  "only_available_rows_added s (InsertDatabaseShardAssignmentLocally databaseOid nodeGroupId s)"
  by (simp add: only_available_rows_added_def InsertDatabaseShardAssignmentLocally_def)

lemma delete_locally_available:
  "only_available_rows_added s (DeleteDatabaseShardByDatabaseIdLocally databaseOid s)"
  using set_delete_first_tuple [of databaseOid "database_shard s"]
  by (auto simp: only_available_rows_added_def DeleteDatabaseShardByDatabaseIdLocally_def)

lemma insert_available:
  assumes "InsertDatabaseShardAssignment d databaseOid nodeGroupId s = Inr s'"
  shows "only_available_rows_added s s'"
  using insert_result [OF assms] by (simp add: only_available_rows_added_def)

lemma delete_available:
  assumes "DeleteDatabaseShardByDatabaseId d databaseOid s = Inr s'"
  shows "only_available_rows_added s s'"
  using delete_result [OF assms] set_delete_first_tuple [of databaseOid "database_shard s"]
  by (auto simp: only_available_rows_added_def)

lemma sweep_available:
  assumes "AllowConnectionsOnlyOnNodeGroup d databaseOid nodeGroupId s = Inr s'"
  shows "only_available_rows_added s s'"
  using sweep_keeps_registry [OF assms] by (simp add: only_available_rows_added_def)

lemma assign_available:
  assumes "AssignDatabaseToShard d databaseOid s = Inr s'"
  shows "only_available_rows_added s s'"
proof -
  from assign_steps [OF assms] obtain s1 s2 where
    ins: "InsertDatabaseShardAssignment d databaseOid (assign_policy s databaseOid) s = Inr s1" and
    sweep: "AllowConnectionsOnlyOnNodeGroup d databaseOid (assign_policy s databaseOid) s1 = Inr s2" and
    fin: "s' = s2\<lparr>ReconfigurePgBouncersOnCommit := True\<rparr>"
    by blast
  from only_available_rows_added_trans [OF insert_available [OF ins] sweep_available [OF sweep]]
  have "only_available_rows_added s s2" .
  with fin show ?thesis by (simp add: only_available_rows_added_def)
qed

lemma update_available:
  assumes "UpdateDatabaseShard d databaseOid nodeGroupId s = Inr s'"
  shows "only_available_rows_added s s'"
proof -
  from update_steps [OF assms] obtain s1 s2 s3 where
    del: "DeleteDatabaseShardByDatabaseId d databaseOid s = Inr s1" and
    ins: "InsertDatabaseShardAssignment d databaseOid nodeGroupId s1 = Inr s2" and
    sweep: "AllowConnectionsOnlyOnNodeGroup d databaseOid nodeGroupId s2 = Inr s3" and
    fin: "s' = s3\<lparr>ReconfigurePgBouncersOnCommit := True\<rparr>"
    by blast
  from only_available_rows_added_trans
         [OF only_available_rows_added_trans [OF delete_available [OF del] insert_available [OF ins]]
             sweep_available [OF sweep]]
  have "only_available_rows_added s s3" .
  with fin show ?thesis by (simp add: only_available_rows_added_def)
qed

text \<open>
  C10. \<open>InsertDatabaseShardAssignmentLocally\<close>, through which every insert goes, adds
  a row with \<open>is_available = true\<close>. After each operation of the two files (the primary
  assignment and its SQL entry point, the move, the two mirroring functions, the
  delegator and the replay entry point) every row of the registry is a row from before
  the operation, unchanged, or is available: no row is written unavailable and no row
  is updated in place.
\<close>

theorem C10_rows_are_available:
  "database_shard (InsertDatabaseShardAssignmentLocally databaseOid nodeGroupId s)
     = database_shard s @
       [\<lparr>database_id = databaseOid, node_group_id = nodeGroupId, is_available = True\<rparr>] \<and>
   (AssignDatabaseToShard d databaseOid s = Inr s' \<longrightarrow> only_available_rows_added s s') \<and>
   (database_shard_assign d databaseName s = Inr s' \<longrightarrow> only_available_rows_added s s') \<and>
   (UpdateDatabaseShard d databaseOid nodeGroupId s = Inr s' \<longrightarrow> only_available_rows_added s s') \<and>
   (citus_internal_add_database_shard databaseName nodeGroupId s = Inr s' \<longrightarrow>
      only_available_rows_added s s') \<and>
   (citus_internal_delete_database_shard databaseName s = Inr s' \<longrightarrow>
      only_available_rows_added s s') \<and>
   only_available_rows_added s
     (snd (PreProcessUtilityInDatabaseShard d parseTree context runPreviousUtilityHook s)) \<and>
   only_available_rows_added s (snd (citus_internal_database_command ParseTreeNode command s))"
proof (intro conjI impI)
  show "database_shard (InsertDatabaseShardAssignmentLocally databaseOid nodeGroupId s)
     = database_shard s @
       [\<lparr>database_id = databaseOid, node_group_id = nodeGroupId, is_available = True\<rparr>]"
    by (simp add: InsertDatabaseShardAssignmentLocally_def)
next
  assume "AssignDatabaseToShard d databaseOid s = Inr s'"
  then show "only_available_rows_added s s'" by (rule assign_available)
next
  assume "database_shard_assign d databaseName s = Inr s'"
  then obtain oid where "AssignDatabaseToShard d oid s = Inr s'"
    by (auto simp: database_shard_assign_def split: sum.splits if_splits)
  then show "only_available_rows_added s s'" by (rule assign_available)
next
  assume "UpdateDatabaseShard d databaseOid nodeGroupId s = Inr s'"
  then show "only_available_rows_added s s'" by (rule update_available)
next
  assume "citus_internal_add_database_shard databaseName nodeGroupId s = Inr s'"
  then obtain oid where
    "s' = (InsertDatabaseShardAssignmentLocally oid nodeGroupId s)\<lparr>ReconfigurePgBouncersOnCommit := True\<rparr>"
    by (auto simp: citus_internal_add_database_shard_def split: sum.splits if_splits)
  with insert_locally_available [of s oid nodeGroupId]
  show "only_available_rows_added s s'" by (simp add: only_available_rows_added_def)
next
  assume "citus_internal_delete_database_shard databaseName s = Inr s'"
  then obtain oid where
    "s' = (DeleteDatabaseShardByDatabaseIdLocally oid s)\<lparr>ReconfigurePgBouncersOnCommit := True\<rparr>"
    by (auto simp: citus_internal_delete_database_shard_def split: sum.splits if_splits)
  with delete_locally_available [of s oid]
  show "only_available_rows_added s s'" by (simp add: only_available_rows_added_def)
next
  show "only_available_rows_added s
     (snd (PreProcessUtilityInDatabaseShard d parseTree context runPreviousUtilityHook s))"
    by (simp add: PreProcessUtilityInDatabaseShard_def ExecuteCommandInControlDatabase_issued
          only_available_rows_added_def split: Node.splits)
next
  have "database_shard (snd (citus_internal_database_command ParseTreeNode command s))
          = database_shard s"
    by (auto simp: replay_defs createdb_def GetNewOid_def DropDatabase_def Let_def
          split: sum.splits Node.splits if_splits option.splits)
  then show "only_available_rows_added s (snd (citus_internal_database_command ParseTreeNode command s))"
    by (simp add: only_available_rows_added_def)
qed


lemma add_shard_example:
  "citus_internal_add_database_shard ''shopdb'' 30 example_backend
     = Inr (example_backend
         \<lparr>database_shard := [\<lparr>database_id = 16384, node_group_id = 30, is_available = True\<rparr>],
          ReconfigurePgBouncersOnCommit := True\<rparr>)"
  by (simp add: citus_internal_add_database_shard_def get_database_oid_def OidIsValid_def
        InvalidOid_def pg_database_ownercheck_def InsertDatabaseShardAssignmentLocally_def
        example_backend_def)

theorem C10_rows_are_available_witness:
  "AssignDatabaseToShard example_deparser 16384 three_workers_backend \<noteq> Inl NullDatabaseName \<and>
   only_available_rows_added three_workers_backend
     (three_workers_backend
         \<lparr>database_shard := [\<lparr>database_id = 16384, node_group_id = 20, is_available = True\<rparr>],
          ReconfigurePgBouncersOnCommit := True,
          issued := [WorkerCommand ''worker-a'' 5432 ''REVOKE CONNECT ON DATABASE shopdb FROM public'',
                     WorkerCommand ''worker-b'' 5432 ''GRANT CONNECT ON DATABASE shopdb TO public'',
                     WorkerCommand ''worker-c'' 5432 ''REVOKE CONNECT ON DATABASE shopdb FROM public'']\<rparr>) \<and>
   UpdateDatabaseShard example_deparser 16384 30 assigned_backend \<noteq> Inl NullDatabaseName \<and>
   only_available_rows_added assigned_backend
     (assigned_backend
         \<lparr>database_shard := [\<lparr>database_id = 16384, node_group_id = 30, is_available = True\<rparr>],
          ReconfigurePgBouncersOnCommit := True,
          issued := [WorkerCommand ''worker-a'' 5432 ''REVOKE CONNECT ON DATABASE shopdb FROM public'',
                     WorkerCommand ''worker-b'' 5432 ''REVOKE CONNECT ON DATABASE shopdb FROM public'',
                     WorkerCommand ''worker-c'' 5432 ''GRANT CONNECT ON DATABASE shopdb TO public'']\<rparr>) \<and>
   citus_internal_add_database_shard ''shopdb'' 30 example_backend \<noteq> Inl (NotOwner ''shopdb'') \<and>
   only_available_rows_added example_backend
     (example_backend
         \<lparr>database_shard := [\<lparr>database_id = 16384, node_group_id = 30, is_available = True\<rparr>],
          ReconfigurePgBouncersOnCommit := True\<rparr>)"
proof -
  note a = C10_rows_are_available
             [where d = example_deparser and databaseOid = 16384 and s = three_workers_backend
                and s' = "three_workers_backend
         \<lparr>database_shard := [\<lparr>database_id = 16384, node_group_id = 20, is_available = True\<rparr>],
          ReconfigurePgBouncersOnCommit := True,
          issued := [WorkerCommand ''worker-a'' 5432 ''REVOKE CONNECT ON DATABASE shopdb FROM public'',
                     WorkerCommand ''worker-b'' 5432 ''GRANT CONNECT ON DATABASE shopdb TO public'',
                     WorkerCommand ''worker-c'' 5432 ''REVOKE CONNECT ON DATABASE shopdb FROM public'']\<rparr>"]
  note u = C10_rows_are_available
             [where d = example_deparser and databaseOid = 16384 and nodeGroupId = 30
                and s = assigned_backend
                and s' = "assigned_backend
         \<lparr>database_shard := [\<lparr>database_id = 16384, node_group_id = 30, is_available = True\<rparr>],
          ReconfigurePgBouncersOnCommit := True,
          issued := [WorkerCommand ''worker-a'' 5432 ''REVOKE CONNECT ON DATABASE shopdb FROM public'',
                     WorkerCommand ''worker-b'' 5432 ''REVOKE CONNECT ON DATABASE shopdb FROM public'',
                     WorkerCommand ''worker-c'' 5432 ''GRANT CONNECT ON DATABASE shopdb TO public'']\<rparr>"]
  note i = C10_rows_are_available
             [where databaseName = "''shopdb''" and nodeGroupId = 30 and s = example_backend
                and s' = "example_backend
         \<lparr>database_shard := [\<lparr>database_id = 16384, node_group_id = 30, is_available = True\<rparr>],
          ReconfigurePgBouncersOnCommit := True\<rparr>"]
  from a three_workers_assignment have 1: "only_available_rows_added three_workers_backend
     (three_workers_backend
         \<lparr>database_shard := [\<lparr>database_id = 16384, node_group_id = 20, is_available = True\<rparr>],
          ReconfigurePgBouncersOnCommit := True,
          issued := [WorkerCommand ''worker-a'' 5432 ''REVOKE CONNECT ON DATABASE shopdb FROM public'',
                     WorkerCommand ''worker-b'' 5432 ''GRANT CONNECT ON DATABASE shopdb TO public'',
                     WorkerCommand ''worker-c'' 5432 ''REVOKE CONNECT ON DATABASE shopdb FROM public'']\<rparr>)"
    by blast
  from u assigned_backend_move have 2: "only_available_rows_added assigned_backend
     (assigned_backend
         \<lparr>database_shard := [\<lparr>database_id = 16384, node_group_id = 30, is_available = True\<rparr>],
          ReconfigurePgBouncersOnCommit := True,
          issued := [WorkerCommand ''worker-a'' 5432 ''REVOKE CONNECT ON DATABASE shopdb FROM public'',
                     WorkerCommand ''worker-b'' 5432 ''REVOKE CONNECT ON DATABASE shopdb FROM public'',
                     WorkerCommand ''worker-c'' 5432 ''GRANT CONNECT ON DATABASE shopdb TO public'']\<rparr>)"
    by blast
  from i add_shard_example have 3: "only_available_rows_added example_backend
     (example_backend
         \<lparr>database_shard := [\<lparr>database_id = 16384, node_group_id = 30, is_available = True\<rparr>],
          ReconfigurePgBouncersOnCommit := True\<rparr>)"
    by blast
  have 4: "AssignDatabaseToShard example_deparser 16384 three_workers_backend \<noteq> Inl NullDatabaseName"
    unfolding three_workers_assignment by simp
  have 5: "UpdateDatabaseShard example_deparser 16384 30 assigned_backend \<noteq> Inl NullDatabaseName"
    unfolding assigned_backend_move by simp
  have 6: "citus_internal_add_database_shard ''shopdb'' 30 example_backend \<noteq> Inl (NotOwner ''shopdb'')"
    unfolding add_shard_example by simp
  from 1 2 3 4 5 6 show ?thesis by (intro conjI)
qed

end
